theory Spec2Isabelle
  imports Complex_Main "HOL-Library.Monad_Syntax"
begin

section \<open>The CV tree of \<^verbatim>\<open>data.ts\<close>\<close>

text \<open>
  Numbers are JavaScript doubles in the source; the embedding computes with exact reals,
  so rounding, NaN and the infinities are outside the model. Objects are compared by
  reference in \<^verbatim>\<open>findItem\<close>, so every \<^verbatim>\<open>CVItem\<close> object lives in a store (a list, the
  address of an object is its index) and the tree holds addresses.
  \<^verbatim>\<open>assert.fail()\<close> is the result \<open>None\<close>.
\<close>

record CVInfo =
  picture_info :: string
  description_info :: "string option"
  relDistance_info :: "real option"
  relSize_info :: "real option"

record CVItem =
  picture :: string
  description :: "string option"
  depth :: nat
  relDistance :: real
  relSize :: real

datatype Tree = Tree (item: nat) (children: "Tree list")

record DataModule =
  items :: "CVItem list"
  tree :: Tree

text \<open>\<^verbatim>\<open>rootItem\<close> is the first object allocated; \<^verbatim>\<open>tree\<close> starts as the root without children.\<close>

definition rootItem :: nat where
  "rootItem = 0"

definition initialModule :: DataModule where
  "initialModule =
     \<lparr>items = [\<lparr>picture = ''/static/images/profile.jpg'', description = None, depth = 0,
                relDistance = 1, relSize = 1\<rparr>],
      tree = Tree rootItem []\<rparr>"

text \<open>\<^verbatim>\<open>walkTree\<close>: pre-order search for the subtree whose item is the given object.\<close>

fun walkTree :: "nat \<Rightarrow> Tree \<Rightarrow> Tree option"
  and walkChildren :: "nat \<Rightarrow> Tree list \<Rightarrow> Tree option" where
  "walkTree it (Tree i cs) = (if i = it then Some (Tree i cs) else walkChildren it cs)"
| "walkChildren it [] = None"
| "walkChildren it (subTree # rest) =
     (case walkTree it subTree of Some res \<Rightarrow> Some res | None \<Rightarrow> walkChildren it rest)"

definition findItem :: "nat \<Rightarrow> DataModule \<Rightarrow> Tree option" where
  "findItem it s = walkTree it (tree s)"

text \<open>
  \<^verbatim>\<open>parentTree.children.push(...)\<close> mutates the subtree that \<^verbatim>\<open>walkTree\<close> returned; on the
  immutable tree this is the insertion below the first match in pre-order.
\<close>

fun pushChild :: "nat \<Rightarrow> Tree \<Rightarrow> Tree \<Rightarrow> Tree"
  and pushChildren :: "nat \<Rightarrow> Tree \<Rightarrow> Tree list \<Rightarrow> Tree list" where
  "pushChild it c (Tree i cs) =
     (if i = it then Tree i (cs @ [c]) else Tree i (pushChildren it c cs))"
| "pushChildren it c [] = []"
| "pushChildren it c (subTree # rest) =
     (if walkTree it subTree \<noteq> None then pushChild it c subTree # rest
      else subTree # pushChildren it c rest)"

definition addItem :: "CVInfo \<Rightarrow> nat \<Rightarrow> DataModule \<Rightarrow> (nat \<times> DataModule) option" where
  "addItem info parent s =
     (case findItem parent s of
        None \<Rightarrow> None
      | Some parentTree \<Rightarrow>
          let p = items s ! item parentTree;
              newRelSize = (if depth p \<ge> 2 then relSize p else relSize p * 0.65);
              new = \<lparr>picture = picture_info info,
                     description = description_info info,
                     depth = depth p + 1,
                     relDistance = (case relDistance_info info of
                                      Some d \<Rightarrow> d | None \<Rightarrow> relDistance p * 0.6),
                     relSize = (case relSize_info info of
                                  Some z \<Rightarrow> z | None \<Rightarrow> newRelSize)\<rparr>;
              a = length (items s)
          in Some (a, s\<lparr>items := items s @ [new],
                         tree := pushChild (item parentTree) (Tree a []) (tree s)\<rparr>))"

definition getTree :: "DataModule \<Rightarrow> Tree" where
  "getTree s = tree s"

text \<open>The items of a tree, in pre-order: the objects reachable from it.\<close>

fun treeItems :: "Tree \<Rightarrow> nat list" where
  "treeItems (Tree i cs) = i # concat (map treeItems cs)"

text \<open>
  The invariant of the store: every address in the tree is allocated, and every item has a
  positive \<open>relSize\<close> and \<open>relDistance\<close>.
\<close>

definition positiveItems :: "DataModule \<Rightarrow> bool" where
  "positiveItems s =
     (list_all (\<lambda>a. a < length (items s)) (treeItems (tree s)) \<and>
      list_all (\<lambda>i. 0 < CVItem.relSize i \<and> 0 < CVItem.relDistance i) (items s))"

text \<open>
  The values of every child in a tree follow from its parent as \<^verbatim>\<open>addItem\<close> computes them
  when the caller supplies none: \<open>relSize\<close> is the parent's, times 0.65 unless the parent
  has depth 2 or more, \<open>relDistance\<close> the parent's times 0.6, and \<open>depth\<close> one more.
\<close>

fun derivedTree :: "CVItem list \<Rightarrow> Tree \<Rightarrow> bool"
  and derivedChildren :: "CVItem list \<Rightarrow> CVItem \<Rightarrow> Tree list \<Rightarrow> bool" where
  "derivedTree its (Tree i cs) = derivedChildren its (its ! i) cs"
| "derivedChildren its p [] = True"
| "derivedChildren its p (c # cs) =
     (relSize (its ! item c) = (if depth p \<ge> 2 then relSize p else relSize p * 0.65) \<and>
      relDistance (its ! item c) = relDistance p * 0.6 \<and>
      depth (its ! item c) = depth p + 1 \<and>
      derivedTree its c \<and> derivedChildren its p cs)"

text \<open>Arguments for one call of \<^verbatim>\<open>addItem\<close>: one supplies both values, one supplies none.\<close>

definition exampleInfo :: CVInfo where
  "exampleInfo = \<lparr>picture_info = ''/static/images/cv.png'', description_info = None,
     relDistance_info = Some 2, relSize_info = Some 3\<rparr>"

definition plainInfo :: CVInfo where
  "plainInfo = \<lparr>picture_info = ''/static/images/cv.png'', description_info = None,
     relDistance_info = None, relSize_info = None\<rparr>"

text \<open>The top-level statements of the module, in source order.\<close>

definition dataModule :: "DataModule option" where
  \<open>dataModule = do {
     s \<leftarrow> Some initialModule;
     (cvNode, s) \<leftarrow> addItem
       \<lparr>picture_info = ''/static/images/cv.png'',
        description_info = Some ''You can download a more formal resume <a href="https://rahmat-ml.github.io/files/rahmat-ansari-cv.pdf">here</a>'',
        relDistance_info = None, relSize_info = None\<rparr> rootItem s;
     (hsuNode, s) \<leftarrow> addItem
       \<lparr>picture_info = ''/static/images/hsu.png'',
        description_info = Some ''Grade: 17.65/20 (1st rank - 2020 entrance of computer engineering)'',
        relDistance_info = None, relSize_info = None\<rparr> rootItem s;
     (experiencesNode, s) \<leftarrow> addItem
       \<lparr>picture_info = ''/static/images/construction.png'',
        description_info = Some ''Server-side programming experiences'',
        relDistance_info = None, relSize_info = None\<rparr> rootItem s;
     (iustNode, s) \<leftarrow> addItem
       \<lparr>picture_info = ''/static/images/iust.png'',
        description_info = Some ''Master's degree student in AI'',
        relDistance_info = None, relSize_info = None\<rparr> rootItem s;
     (kaggleNode, s) \<leftarrow> addItem
       \<lparr>picture_info = ''/static/images/kaggle.png'',
        description_info = Some ''link: <a href="https://www.kaggle.com/enansari">enansari</a>'',
        relDistance_info = None, relSize_info = None\<rparr> iustNode s;
     (rahmatMlNode, s) \<leftarrow> addItem
       \<lparr>picture_info = ''/static/images/rahmat-ml.png'',
        description_info = Some ''Organization related to AI projects: <a href="https://github.com/Rahmat-ML">Rahmat-ML</a><br>My current personal page: <a href="https://rahmat-ml.github.io/">rahmat-ml.github.io</a>'',
        relDistance_info = None, relSize_info = None\<rparr> iustNode s;
     (linkNode, s) \<leftarrow> addItem
       \<lparr>picture_info = ''/static/images/link.png'',
        description_info = Some ''How to reach me!'',
        relDistance_info = None, relSize_info = None\<rparr> rootItem s;
     (emailNode, s) \<leftarrow> addItem
       \<lparr>picture_info = ''/static/images/email.png'',
        description_info = Some ''<a href="mailto:rahmat.ansari.dev@gmail.com">rahmat.ansari.dev@gmail.com</a>'',
        relDistance_info = None, relSize_info = None\<rparr> linkNode s;
     (linkedinNode, s) \<leftarrow> addItem
       \<lparr>picture_info = ''/static/images/linkedin.png'',
        description_info = Some ''link: <a href="https://www.linkedin.com/in/en-r-ansari">en-r-ansari</a>'',
        relDistance_info = None, relSize_info = None\<rparr> linkNode s;
     (githubNode, s) \<leftarrow> addItem
       \<lparr>picture_info = ''/static/images/github.png'',
        description_info = Some ''link: <a href="https://github.com/EnAnsari">EnAnsari</a>'',
        relDistance_info = None, relSize_info = None\<rparr> linkNode s;
     (telegramNode, s) \<leftarrow> addItem
       \<lparr>picture_info = ''/static/images/telegram.png'',
        description_info = Some ''my telegram channel: <a href="https://t.me/Iibx7">Iibx7</a>'',
        relDistance_info = None, relSize_info = None\<rparr> linkNode s;
     (rahmatJsNode, s) \<leftarrow> addItem
       \<lparr>picture_info = ''/static/images/rahmat-js.png'',
        description_info = Some ''organization specific to my server-side applications: <a href="https://github.com/rahmat-js">rahmat-js</a>'',
        relDistance_info = None, relSize_info = None\<rparr> githubNode s;
     (funCodingLab, s) \<leftarrow> addItem
       \<lparr>picture_info = ''/static/images/funcodinglab.png'',
        description_info = Some ''organization dedicated to my interesting apps: <a href="https://github.com/funCodingLab">funCodingLab</a>'',
        relDistance_info = None, relSize_info = None\<rparr> githubNode s;
     (hsuLugNode, s) \<leftarrow> addItem
       \<lparr>picture_info = ''/static/images/lug.jpg'',
        description_info = Some ''I was one of the three leaders for the year 2023-2024, and with the help of other leaders and enthusiastic students, we held warm and intimate meetings about the latest technology and practical and experimental training in the professional workplace. This group was the most active Linux user group (LUG) in Sabzevar.'',
        relDistance_info = None, relSize_info = None\<rparr> hsuNode s;
     (hsuSscNode, s) \<leftarrow> addItem
       \<lparr>picture_info = ''/static/images/ssc-hsu.jpg'',
        description_info = Some ''As a member of the Computer Engineering Scientific Association of Hakim Sabzevari University, I participated in many activities. I was the designer of the programming competition and somehow I had a role in correcting it. I also collaborated with other members in many festivals. The cooperating professor of this course was Professor Fasihfar, a member of the computer engineering faculty of Hakim Sabzevari University.'',
        relDistance_info = None, relSize_info = None\<rparr> hsuNode s;
     (hsuGithubNode, s) \<leftarrow> addItem
       \<lparr>picture_info = ''/static/images/github.png'',
        description_info = Some ''Some repositories that I have written specifically for Hakim Sabzevari University: <a href="https://github.com/hakimuni">hakimuni</a>'',
        relDistance_info = None, relSize_info = None\<rparr> hsuNode s;
     (icpcNode, s) \<leftarrow> addItem
       \<lparr>picture_info = ''/static/images/icpc.png'',
        description_info = Some ''During my university years, I represented my university for two consecutive years, and with the help of my wonderful teammates, we were able to achieve 21st and 26th place in the Sharif University of Technology West Asia Regional Competition, <a href="https://icpc.global/ICPCID/KD9KWAJE12ZB">my ICPC ID</a>'',
        relDistance_info = None, relSize_info = None\<rparr> hsuNode s;
     (codeforces, s) \<leftarrow> addItem
       \<lparr>picture_info = ''/static/images/codeforces.png'',
        description_info = Some ''handles: <a href="https://codeforces.com/profile/enansari">enansari</a> and <a href="https://codeforces.com/profile/pypi0">pypi0</a>'',
        relDistance_info = None, relSize_info = None\<rparr> icpcNode s;
     (ctrlAltDefeatNode, s) \<leftarrow> addItem
       \<lparr>picture_info = ''/static/images/ctrl-alt-defeat.jpg'',
        description_info = Some ''GitHub organization specific to this team: <a href="https://github.com/ctrl-alt-Defeat-icpc">ctrl-alt-Defeat-icpc</a><br>Together, we succeeded in achieving the 26th ICPC2024 rank in West Asia.<br>webpage: <a href="https://ctrl-alt-defeat-icpc.github.io/">ctrl-alt-defeat-icpc.github.io</a>'',
        relDistance_info = None, relSize_info = None\<rparr> icpcNode s;
     (nutellaNode, s) \<leftarrow> addItem
       \<lparr>picture_info = ''/static/images/nutella.jpg'',
        description_info = Some ''GitHub organization specific to this team: <a href="https://github.com/Nutella-ICPC">Nutella-ICPC</a><br>Together, we succeeded in achieving 21st place in ICPC2023 West Asia.'',
        relDistance_info = None, relSize_info = None\<rparr> icpcNode s;
     (onlyfansNode, s) \<leftarrow> addItem
       \<lparr>picture_info = ''/static/images/github.png'',
        description_info = Some ''GitHub organization specific to this team: <a href="https://github.com/onlyfans-icpc">onlyfans-icpc</a><br>Together, Together, we managed to advance to the Rayan World Finals as the top team in the eastern part of the country. We also managed to qualify for the national finals in the Dotin relief programming competition.'',
        relDistance_info = None, relSize_info = None\<rparr> icpcNode s;
     (rahmatCpNode, s) \<leftarrow> addItem
       \<lparr>picture_info = ''/static/images/rahmat-cp.png'',
        description_info = Some ''GitHub organization dedicated to my codes and programs related to competitive programming: <a href="https://github.com/Rahmat-CP">Rahmat-CP</a>'',
        relDistance_info = None, relSize_info = None\<rparr> icpcNode s;
     (neshanNode, s) \<leftarrow> addItem
       \<lparr>picture_info = ''/static/images/neshan.png'',
        description_info = Some ''At Neshan I was a back-end mentee'',
        relDistance_info = None, relSize_info = None\<rparr> experiencesNode s;
     (partSoftwareGroupNode, s) \<leftarrow> addItem
       \<lparr>picture_info = ''/static/images/part.png'',
        description_info = Some ''I was a back-end intern in Part Software Group'',
        relDistance_info = None, relSize_info = None\<rparr> experiencesNode s;
     (rahmasirNode, s) \<leftarrow> addItem
       \<lparr>picture_info = ''/static/images/rahmasir.png'',
        description_info = Some ''In <a href="https://github.com/rahmasir">this repository</a>, I have written all the code related to the Hammasir bootcamp in Neshan'',
        relDistance_info = None, relSize_info = None\<rparr> neshanNode s;
     (snappMapNode, s) \<leftarrow> addItem
       \<lparr>picture_info = ''/static/images/snapp.png'',
        description_info = Some ''In <a href="https://github.com/snapp-map">this repository</a>, I have tried to create a simulation of the Snapp app and its affiliates with the help of my friend'',
        relDistance_info = None, relSize_info = None\<rparr> neshanNode s;
     (yaranNode, s) \<leftarrow> addItem
       \<lparr>picture_info = ''/static/images/yaran.jpg'',
        description_info = Some ''In <a href="https://github.com/tiffany-co">this repository</a>, I wrote a remote application for a private employer using fastapi. I was a server-side programmer.'',
        relDistance_info = None, relSize_info = None\<rparr> experiencesNode s;
     Some s
   }\<close>



section \<open>The graph visualizer of \<^verbatim>\<open>visualization.ts\<close>\<close>

text \<open>
  \<^verbatim>\<open>Node\<close> objects are shared between the caller, the arrays of the visualizer, the d3
  simulation and the data bound to DOM elements, and the forces mutate them in place.
  They live in a store \<open>heap\<close> from addresses to objects; arrays, links and bound data
  hold addresses. A JavaScript reference always points to an object, so the store is a
  total function. An optional number (\<^verbatim>\<open>x?: number\<close>) is a \<open>real option\<close>, \<open>None\<close>
  for \<^verbatim>\<open>undefined\<close>. The drag handlers, the pinned position \<^verbatim>\<open>fx\<close>, \<^verbatim>\<open>fy\<close> that they
  set, and the zoom behaviour are not part of the model.
\<close>

record Config =
  linkDistanceUnit :: real
  chargeStrength :: real
  circleRadiusUnit :: real

record Node =
  id_n :: string
  image_n :: string
  description :: "string option"
  relSize :: real
  relDistance :: real
  x_n :: "real option"
  y_n :: "real option"
  vx_n :: "real option"
  vy_n :: "real option"

record Link =
  source :: nat
  target :: nat

text \<open>
  The DOM below the \<^verbatim>\<open>svg\<close> element and \<^verbatim>\<open>document.body\<close>, as far as the visualizer
  builds it. A \<open>NodeGroup\<close> is one \<^verbatim>\<open>g.node\<close> with its inner group and two circles;
  \<open>datum_g\<close> is the \<^verbatim>\<open>__data__\<close> that d3 binds to it, \<open>tooltip_g\<close> the tooltip the
  group's pointer handlers close over (\<open>None\<close> when the \<^verbatim>\<open>filter\<close> on the description
  left the group without handlers). A \<open>Pattern\<close> is one \<^verbatim>\<open>defs\<close> with its
  \<^verbatim>\<open>pattern\<close> and \<^verbatim>\<open>image\<close>.
\<close>

record Circle =
  r_attr :: real
  fill_attr :: string

record NodeGroup =
  datum_g :: nat
  transform_attr :: "(real option \<times> real option) option"
  circles :: "Circle list"
  tooltip_g :: "nat option"

record LineElement =
  datum_l :: Link
  x1_attr :: "real option"
  y1_attr :: "real option"
  x2_attr :: "real option"
  y2_attr :: "real option"

record Pattern =
  id_attr :: string
  x_attr :: real
  y_attr :: real
  width_attr :: real
  height_attr :: real
  image_href :: string
  image_width :: real
  image_height :: real

text \<open>
  Modelled from the spec: the class \<^verbatim>\<open>Tooltip\<close> of \<^verbatim>\<open>./tooltip\<close> is not part of the
  sources at hand. The spec gives it \<^verbatim>\<open>setData\<close>, \<^verbatim>\<open>show()\<close>, \<^verbatim>\<open>hide()\<close> and a root DOM
  node; the model keeps its visibility and the node it was last given, and takes a new
  tooltip to be hidden.
\<close>

record Tooltip =
  visible :: bool
  shown_for :: "nat option"

text \<open>
  The d3 force simulation is library code. The model keeps what the visualizer passes to
  it: per force the captured parameters, \<^verbatim>\<open>alpha\<close>, the velocity decay and whether the
  internal timer runs. \<^verbatim>\<open>d3.forceCollide\<close> and \<^verbatim>\<open>d3.forceLink\<close> evaluate their accessor
  once per node or link when the force is initialised and keep the results.
\<close>

record BoundaryParams =
  width :: real
  height :: real
  strength :: real

record Simulation =
  alpha :: real
  velocityDecay :: real
  running :: bool
  collide :: "real list option"
  charge :: "real option"
  center :: "(real \<times> real \<times> real) option"
  boundary :: "BoundaryParams option"
  link :: "(real \<times> real list) option"

text \<open>
  The state of one \<^verbatim>\<open>GraphVisualizer\<close> with its environment: the object store, the
  size of the \<^verbatim>\<open>svg\<close> element, the fields of the class, the DOM it owns, and the
  browser's timers (\<open>clock\<close> is the time in milliseconds). \<open>hideTask\<close> is \<open>Some k\<close>
  for the function \<^verbatim>\<open>() => tip.hide()\<close> of tooltip \<open>k\<close> and \<open>None\<close> for the empty function
  of the constructor. Every run of the \<^verbatim>\<open>enter\<close> callback has its own variables \<^verbatim>\<open>tip\<close>
  and \<^verbatim>\<open>showTimeout\<close>: \<open>body ! k\<close> and \<open>showTimeout ! k\<close> are those of the \<open>k\<close>-th run.
  The pending timers are kept in two lists, one per call site of \<^verbatim>\<open>setTimeout\<close>: \<open>timers\<close>
  (handle and due time) are those of \<^verbatim>\<open>registerResize\<close>, \<open>hideTimers\<close> (handle, due time
  and the function passed, a value of \<^verbatim>\<open>hideTask\<close>) those of the tooltip handlers. Handles
  are unique over both, and each call site of \<^verbatim>\<open>clearTimeout\<close> only ever holds handles of
  its own list.
\<close>

record GraphVisualizer =
  heap :: "nat \<Rightarrow> Node"
  clientWidth :: real
  clientHeight :: real
  nodes :: "nat list"
  links :: "Link list"
  config :: Config
  simulation :: Simulation
  hideTask :: "nat option"
  nodeGroups :: "NodeGroup list"
  lineElements :: "LineElement list"
  defs :: "Pattern list"
  body :: "Tooltip list"
  showTimeout :: "nat option list"
  hideTimers :: "(nat \<times> nat \<times> nat option) list"
  lastResizeTimeout :: "nat option"
  timers :: "(nat \<times> nat) list"
  nextHandle :: nat
  clock :: nat

datatype AssertionError = AssertionError

subsection \<open>Forces\<close>

definition collideRadius :: "Config \<Rightarrow> Node \<Rightarrow> real" where
  "collideRadius cfg d = relSize d * circleRadiusUnit cfg + 10"

definition applyCollideForce :: "GraphVisualizer \<Rightarrow> GraphVisualizer" where
  "applyCollideForce st =
     st\<lparr>simulation := (simulation st)
          \<lparr>collide := Some (map (\<lambda>a. collideRadius (config st) (heap st a)) (nodes st))\<rparr>\<rparr>"

definition applyChargeForce :: "GraphVisualizer \<Rightarrow> GraphVisualizer" where
  "applyChargeForce st =
     st\<lparr>simulation := (simulation st)\<lparr>charge := Some (chargeStrength (config st))\<rparr>\<rparr>"

definition applyCenterForce :: "GraphVisualizer \<Rightarrow> GraphVisualizer" where
  "applyCenterForce st =
     st\<lparr>simulation := (simulation st)
          \<lparr>center := Some (clientWidth st / 2, clientHeight st / 2, 0.1)\<rparr>\<rparr>"

definition applyBoundaryForce :: "GraphVisualizer \<Rightarrow> GraphVisualizer" where
  "applyBoundaryForce st =
     st\<lparr>simulation := (simulation st)
          \<lparr>boundary := Some \<lparr>width = clientWidth st, height = clientHeight st,
                              strength = 0.3\<rparr>\<rparr>\<rparr>"

definition applyAllForces :: "GraphVisualizer \<Rightarrow> GraphVisualizer" where
  "applyAllForces st =
     applyBoundaryForce (applyCenterForce (applyChargeForce (applyCollideForce st)))"

text \<open>
  The body of the loop in \<^verbatim>\<open>boundaryForce\<close> for one node: \<open>cfg\<close> is \<^verbatim>\<open>this.config\<close> as
  read when the force runs, \<open>params\<close> what \<^verbatim>\<open>applyBoundaryForce\<close> captured.
\<close>

definition boundaryNode :: "BoundaryParams \<Rightarrow> Config \<Rightarrow> real \<Rightarrow> Node \<Rightarrow> Node" where
  "boundaryNode params cfg al node =
     (let radius = relSize node * circleRadiusUnit cfg;
          xminlim = radius;
          xmaxlim = width params - radius;
          yminlim = radius;
          ymaxlim = height params - radius;
          node1 =
            (case (x_n node, vx_n node) of
               (Some px, Some pvx) \<Rightarrow>
                 if px \<le> xminlim
                 then node\<lparr>vx_n := Some (pvx + (xminlim - px) * strength params * al)\<rparr>
                 else if px \<ge> xmaxlim
                 then node\<lparr>vx_n := Some (pvx + (xmaxlim - px) * strength params * al)\<rparr>
                 else node
             | _ \<Rightarrow> node)
      in (case (y_n node, vy_n node) of
            (Some py, Some pvy) \<Rightarrow>
              if py \<le> yminlim
              then node1\<lparr>vy_n := Some (pvy + (yminlim - py) * strength params * al)\<rparr>
              else if py \<ge> ymaxlim
              then node1\<lparr>vy_n := Some (pvy + (ymaxlim - py) * strength params * al)\<rparr>
              else node1
          | _ \<Rightarrow> node1))"

text \<open>
  One application of the force: the loop over \<^verbatim>\<open>this.simulation.nodes()\<close>, which is the
  array \<^verbatim>\<open>this.nodes\<close> itself. An object that occurs twice in the array is visited twice.
\<close>

definition boundaryForce :: "BoundaryParams \<Rightarrow> real \<Rightarrow> GraphVisualizer \<Rightarrow> GraphVisualizer" where
  "boundaryForce params al st =
     st\<lparr>heap := fold (\<lambda>a h. h(a := boundaryNode params (config st) al (h a))) (nodes st)
                  (heap st)\<rparr>"

subsection \<open>The data join of d3-selection\<close>

text \<open>
  \<^verbatim>\<open>selection.data(data, key)\<close> and \<^verbatim>\<open>selection.join\<close> are library code; the model follows
  their documented behaviour. The first element of the selection with a key represents
  that key. A datum whose key is represented, and was not used by an earlier datum,
  takes that element (update) and becomes its datum; every other datum enters. The
  elements that no datum took leave (exit). \<open>bindKey\<close> pairs each datum with the element
  it takes, if any; \<open>seen\<close> are the keys of the data already handled.
\<close>

fun bindKey :: "('e \<Rightarrow> string) \<Rightarrow> ('d \<Rightarrow> string) \<Rightarrow> 'e list \<Rightarrow> 'd list \<Rightarrow> string list
    \<Rightarrow> ('d \<times> 'e option) list" where
  "bindKey ke kd elems [] seen = []"
| "bindKey ke kd elems (d # ds) seen =
     (d, if kd d \<in> set seen then None else find (\<lambda>e. ke e = kd d) elems)
       # bindKey ke kd elems ds (kd d # seen)"

definition enterSelection :: "('d \<times> 'e option) list \<Rightarrow> 'd list" where
  "enterSelection bound = map fst (filter (\<lambda>(d, m). m = None) bound)"


text \<open>The keys that \<^verbatim>\<open>update\<close> passes to the two joins.\<close>

definition nodeKey :: "GraphVisualizer \<Rightarrow> nat \<Rightarrow> string" where
  "nodeKey st d = id_n (heap st d)"

definition linkKey :: "GraphVisualizer \<Rightarrow> Link \<Rightarrow> string" where
  "linkKey st d = id_n (heap st (source d)) @ ''-'' @ id_n (heap st (target d))"

subsection \<open>\<^verbatim>\<open>update\<close>\<close>

definition discRadius :: "GraphVisualizer \<Rightarrow> nat \<Rightarrow> real" where
  "discRadius st d = relSize (heap st d) * circleRadiusUnit (config st)"

text \<open>What the \<^verbatim>\<open>enter\<close> callback builds for one entering node; \<open>tip\<close> is its tooltip.\<close>

definition enterNode :: "GraphVisualizer \<Rightarrow> nat \<Rightarrow> nat \<Rightarrow> NodeGroup" where
  "enterNode st tip d =
     \<lparr>datum_g = d,
      transform_attr = None,
      circles = [\<lparr>r_attr = discRadius st d, fill_attr = ''white''\<rparr>,
                 \<lparr>r_attr = discRadius st d,
                  fill_attr = ''url(#'' @ ''pattern'' @ id_n (heap st d) @ '')''\<rparr>],
      tooltip_g = (case description (heap st d) of
                     None \<Rightarrow> None
                   | Some dsc \<Rightarrow> if length dsc > 0 then Some tip else None)\<rparr>"

definition enterPattern :: "GraphVisualizer \<Rightarrow> nat \<Rightarrow> Pattern" where
  "enterPattern st d =
     \<lparr>id_attr = ''pattern'' @ id_n (heap st d),
      x_attr = - relSize (heap st d) * circleRadiusUnit (config st),
      y_attr = - relSize (heap st d) * circleRadiusUnit (config st),
      width_attr = relSize (heap st d) * circleRadiusUnit (config st) * 2,
      height_attr = relSize (heap st d) * circleRadiusUnit (config st) * 2,
      image_href = image_n (heap st d),
      image_width = relSize (heap st d) * circleRadiusUnit (config st) * 2,
      image_height = relSize (heap st d) * circleRadiusUnit (config st) * 2\<rparr>"

definition bindNodes :: "GraphVisualizer \<Rightarrow> (nat \<times> NodeGroup option) list" where
  "bindNodes st =
     bindKey (\<lambda>e. nodeKey st (datum_g e)) (nodeKey st) (nodeGroups st) (nodes st) []"


text \<open>
  The join on \<^verbatim>\<open>.node\<close>. \<^verbatim>\<open>join\<close> calls the \<^verbatim>\<open>enter\<close> callback once, whether or not a node
  enters: the callback appends a group and a pattern per entering node, then creates one
  \<^verbatim>\<open>Tooltip\<close>, appends it to \<^verbatim>\<open>document.body\<close> and binds the handlers of the entering
  groups to it. The leaving groups are removed, the others end up in the order of the data.
\<close>

definition joinNodes :: "GraphVisualizer \<Rightarrow> GraphVisualizer" where
  "joinNodes st =
     (let bound = bindNodes st;
          tip = length (body st)
      in st\<lparr>nodeGroups :=
               map (\<lambda>(d, m). case m of Some e \<Rightarrow> e\<lparr>datum_g := d\<rparr>
                                      | None \<Rightarrow> enterNode st tip d) bound,
             defs := defs st @ map (enterPattern st) (enterSelection bound),
             body := body st @ [\<lparr>visible = False, shown_for = None\<rparr>],
             showTimeout := showTimeout st @ [None]\<rparr>)"

definition bindLinks :: "GraphVisualizer \<Rightarrow> (Link \<times> LineElement option) list" where
  "bindLinks st =
     bindKey (\<lambda>e. linkKey st (datum_l e)) (linkKey st) (lineElements st) (links st) []"


definition enterLine :: "Link \<Rightarrow> LineElement" where
  "enterLine d =
     \<lparr>datum_l = d, x1_attr = None, y1_attr = None, x2_attr = None, y2_attr = None\<rparr>"

definition joinLinks :: "GraphVisualizer \<Rightarrow> GraphVisualizer" where
  "joinLinks st =
     st\<lparr>lineElements :=
          map (\<lambda>(d, m). case m of Some e \<Rightarrow> e\<lparr>datum_l := d\<rparr> | None \<Rightarrow> enterLine d)
            (bindLinks st)\<rparr>"

text \<open>
  \<^verbatim>\<open>simulation.nodes(this.nodes)\<close>: d3-force gives every node without a position its place
  on a spiral and every node without a velocity the velocity zero, then initialises the
  registered forces again.
\<close>

definition initializeNode :: "nat \<Rightarrow> Node \<Rightarrow> Node" where
  "initializeNode i node =
     (let node1 =
            (if x_n node = None \<or> y_n node = None
             then node\<lparr>x_n := Some (10 * sqrt (0.5 + real i) * cos (real i * (pi * (3 - sqrt 5)))),
                       y_n := Some (10 * sqrt (0.5 + real i) * sin (real i * (pi * (3 - sqrt 5))))\<rparr>
             else node)
      in if vx_n node1 = None \<or> vy_n node1 = None
         then node1\<lparr>vx_n := Some 0, vy_n := Some 0\<rparr>
         else node1)"

definition simulationNodes :: "GraphVisualizer \<Rightarrow> GraphVisualizer" where
  "simulationNodes st =
     (let st1 = st\<lparr>heap := fold (\<lambda>i h. h((nodes st ! i) := initializeNode i (h (nodes st ! i))))
                               [0..<length (nodes st)] (heap st)\<rparr>
      in st1\<lparr>simulation := (simulation st1)
               \<lparr>collide := map_option
                    (\<lambda>_. map (\<lambda>a. collideRadius (config st1) (heap st1 a)) (nodes st1))
                    (collide (simulation st1))\<rparr>\<rparr>)"

definition forceLink :: "GraphVisualizer \<Rightarrow> GraphVisualizer" where
  "forceLink st =
     st\<lparr>simulation := (simulation st)
          \<lparr>link := Some (0.07, map (\<lambda>l. relDistance (heap st (target l))
                                       * linkDistanceUnit (config st)) (links st))\<rparr>\<rparr>"

text \<open>
  \<^verbatim>\<open>update\<close>: the two joins, the simulation calls, and the loop that moves every line in
  front of its siblings, one after the other, which reverses the lines.
\<close>

definition update :: "GraphVisualizer \<Rightarrow> GraphVisualizer" where
  "update st =
     (let st1 = joinLinks (joinNodes st);
          st2 = forceLink (simulationNodes st1);
          st3 = st2\<lparr>simulation := (simulation st2)\<lparr>alpha := 0.3, running := True\<rparr>\<rparr>
      in st3\<lparr>lineElements := rev (lineElements st3)\<rparr>)"

definition addNode :: "nat \<Rightarrow> GraphVisualizer \<Rightarrow> GraphVisualizer" where
  "addNode node st = update (st\<lparr>nodes := nodes st @ [node]\<rparr>)"

definition addLink :: "Link \<Rightarrow> GraphVisualizer \<Rightarrow> GraphVisualizer" where
  "addLink l st = update (st\<lparr>links := links st @ [l]\<rparr>)"

subsection \<open>The pointer handlers\<close>

text \<open>
  Modelled from the spec: \<^verbatim>\<open>tip.setData\<close>, \<^verbatim>\<open>tip.show()\<close> and \<^verbatim>\<open>tip.hide()\<close> of the class
  \<^verbatim>\<open>Tooltip\<close>, which is not part of the sources at hand.
\<close>

definition setData :: "nat \<Rightarrow> nat \<Rightarrow> GraphVisualizer \<Rightarrow> GraphVisualizer" where
  "setData k d st = st\<lparr>body := (body st)[k := (body st ! k)\<lparr>shown_for := Some d\<rparr>]\<rparr>"

definition showTip :: "nat \<Rightarrow> GraphVisualizer \<Rightarrow> GraphVisualizer" where
  "showTip k st = st\<lparr>body := (body st)[k := (body st ! k)\<lparr>visible := True\<rparr>]\<rparr>"

definition hideTip :: "nat \<Rightarrow> GraphVisualizer \<Rightarrow> GraphVisualizer" where
  "hideTip k st = st\<lparr>body := (body st)[k := (body st ! k)\<lparr>visible := False\<rparr>]\<rparr>"

text \<open>Calling a value of \<^verbatim>\<open>hideTask\<close>.\<close>

definition callHideTask :: "nat option \<Rightarrow> GraphVisualizer \<Rightarrow> GraphVisualizer" where
  "callHideTask task st = (case task of None \<Rightarrow> st | Some k \<Rightarrow> hideTip k st)"

text \<open>\<^verbatim>\<open>setTimeout(task, 800)\<close> and \<^verbatim>\<open>clearTimeout(showTimeout)\<close> in the tooltip handlers.\<close>

definition setHideTimeout :: "nat option \<Rightarrow> GraphVisualizer \<Rightarrow> nat \<times> GraphVisualizer" where
  "setHideTimeout task st =
     (nextHandle st,
      st\<lparr>hideTimers := hideTimers st @ [(nextHandle st, clock st + 800, task)],
         nextHandle := nextHandle st + 1\<rparr>)"

definition clearHideTimeout :: "nat option \<Rightarrow> GraphVisualizer \<Rightarrow> GraphVisualizer" where
  "clearHideTimeout handle st =
     (case handle of
        None \<Rightarrow> st
      | Some h \<Rightarrow> st\<lparr>hideTimers := filter (\<lambda>(h', due, task). h' \<noteq> h) (hideTimers st)\<rparr>)"

text \<open>
  The handlers that the \<^verbatim>\<open>enter\<close> callback installs, for the group at position \<open>g\<close> and
  for tooltip \<open>k\<close>. A group that the \<^verbatim>\<open>filter\<close> left out has no handlers.
\<close>

definition mouseover :: "nat \<Rightarrow> GraphVisualizer \<Rightarrow> GraphVisualizer" where
  "mouseover g st =
     (if g < length (nodeGroups st) then
        (case tooltip_g (nodeGroups st ! g) of
           None \<Rightarrow> st
         | Some k \<Rightarrow>
             let st1 = clearHideTimeout (showTimeout st ! k) st;
                 st2 = setData k (datum_g (nodeGroups st ! g)) st1;
                 st3 = callHideTask (hideTask st2) st2
             in showTip k st3)
      else st)"

definition mouseout :: "nat \<Rightarrow> GraphVisualizer \<Rightarrow> GraphVisualizer" where
  "mouseout g st =
     (if g < length (nodeGroups st) then
        (case tooltip_g (nodeGroups st ! g) of
           None \<Rightarrow> st
         | Some k \<Rightarrow>
             let st1 = st\<lparr>hideTask := Some k\<rparr>;
                 (handle, st2) = setHideTimeout (hideTask st1) st1
             in st2\<lparr>showTimeout := (showTimeout st2)[k := Some handle]\<rparr>)
      else st)"

definition tipMouseover :: "nat \<Rightarrow> GraphVisualizer \<Rightarrow> GraphVisualizer" where
  "tipMouseover k st =
     (if k < length (body st) then clearHideTimeout (showTimeout st ! k) st else st)"

definition tipMouseout :: "nat \<Rightarrow> GraphVisualizer \<Rightarrow> GraphVisualizer" where
  "tipMouseout k st =
     (if k < length (body st) then
        (let (handle, st1) = setHideTimeout (hideTask st) st
         in st1\<lparr>showTimeout := (showTimeout st1)[k := Some handle]\<rparr>)
      else st)"

text \<open>A pending timer of the tooltip handlers runs: the function it was given is called.\<close>

definition hideTimeout :: "nat \<Rightarrow> GraphVisualizer \<Rightarrow> GraphVisualizer" where
  "hideTimeout handle st =
     (case find (\<lambda>(h, due, task). h = handle) (hideTimers st) of
        None \<Rightarrow> st
      | Some (h, due, task) \<Rightarrow>
          callHideTask task
            (st\<lparr>hideTimers := filter (\<lambda>(h', due', task'). h' \<noteq> handle) (hideTimers st)\<rparr>))"

text \<open>
  The events of the pointer, as the browser delivers them to the handlers: the pointer
  enters or leaves the group at a position, or enters or leaves a tooltip, or a timer of
  the handlers is due. The pointer is over one element at a time: \<open>pointerTrace hov evs\<close>
  holds when in \<open>evs\<close>, starting with the pointer over the group \<open>hov\<close> (or over none), it
  leaves the group it is over before it enters another one.
\<close>

datatype Event = MouseOver nat | MouseOut nat | TipOver nat | TipOut nat | HideTimeout nat

fun pointerEvent :: "Event \<Rightarrow> GraphVisualizer \<Rightarrow> GraphVisualizer" where
  "pointerEvent (MouseOver g) st = mouseover g st"
| "pointerEvent (MouseOut g) st = mouseout g st"
| "pointerEvent (TipOver k) st = tipMouseover k st"
| "pointerEvent (TipOut k) st = tipMouseout k st"
| "pointerEvent (HideTimeout handle) st = hideTimeout handle st"


text \<open>
  Tooltip \<open>k\<close> is visible. The invariant of the handlers: a visible tooltip is the one of
  the group under the pointer, if that group has handlers, and else the one that
  \<^verbatim>\<open>hideTask\<close> hides.
\<close>

definition visibleTip :: "GraphVisualizer \<Rightarrow> nat \<Rightarrow> bool" where
  "visibleTip st k = (k < length (body st) \<and> visible (body st ! k))"





subsection \<open>The constructor and the resize handler\<close>

text \<open>
  \<open>constructor w h hp\<close>: the visualizer on an \<^verbatim>\<open>svg\<close> element of client size \<open>w\<close> by \<open>h\<close>,
  in a store \<open>hp\<close>. \<^verbatim>\<open>d3.forceSimulation\<close> starts with \<^verbatim>\<open>alpha\<close> 1 and a running timer.
\<close>

definition constructor :: "real \<Rightarrow> real \<Rightarrow> (nat \<Rightarrow> Node) \<Rightarrow> GraphVisualizer" where
  "constructor w h hp =
     (let sizeFactor = min w h / 1000;
          st = \<lparr>heap = hp, clientWidth = w, clientHeight = h,
                nodes = [], links = [],
                config = \<lparr>linkDistanceUnit = 300 * sizeFactor,
                           chargeStrength = - 60 * sizeFactor,
                           circleRadiusUnit = 80 * sizeFactor\<rparr>,
                simulation = \<lparr>alpha = 1, velocityDecay = 0.6, running = True,
                               collide = None, charge = None, center = None,
                               boundary = None, link = None\<rparr>,
                hideTask = None,
                nodeGroups = [], lineElements = [], defs = [], body = [],
                showTimeout = [], hideTimers = [],
                lastResizeTimeout = None, timers = [], nextHandle = 0, clock = 0\<rparr>;
          st1 = applyAllForces st
      in st1\<lparr>simulation := (simulation st1)\<lparr>velocityDecay := 0.05\<rparr>\<rparr>)"

text \<open>The callback that \<^verbatim>\<open>registerResize\<close> passes to \<^verbatim>\<open>setTimeout\<close>.\<close>

definition resizeTimeout :: "GraphVisualizer \<Rightarrow> GraphVisualizer" where
  "resizeTimeout st =
     (let sizeFactor = min (clientWidth st) (clientHeight st) / 1000;
          st1 = st\<lparr>config := (config st)\<lparr>linkDistanceUnit := 300 * sizeFactor\<rparr>\<rparr>;
          st2 = st1\<lparr>config := (config st1)\<lparr>circleRadiusUnit := 80 * sizeFactor\<rparr>\<rparr>;
          st3 = st2\<lparr>config := (config st2)\<lparr>chargeStrength := - 60 * sizeFactor\<rparr>\<rparr>;
          st4 = applyAllForces st3;
          st5 = st4\<lparr>simulation := (simulation st4)\<lparr>alpha := 1, running := True\<rparr>\<rparr>
      in st5\<lparr>lastResizeTimeout := None\<rparr>)"

text \<open>\<^verbatim>\<open>setTimeout(callback, delay)\<close> and \<^verbatim>\<open>clearTimeout(handle)\<close> of the browser.\<close>

definition setTimeout :: "nat \<Rightarrow> GraphVisualizer \<Rightarrow> nat \<times> GraphVisualizer" where
  "setTimeout delay st =
     (nextHandle st,
      st\<lparr>timers := timers st @ [(nextHandle st, clock st + delay)],
         nextHandle := nextHandle st + 1\<rparr>)"

definition clearTimeout :: "nat \<Rightarrow> GraphVisualizer \<Rightarrow> GraphVisualizer" where
  "clearTimeout handle st = st\<lparr>timers := filter (\<lambda>(h, due). h \<noteq> handle) (timers st)\<rparr>"

text \<open>The callback of the \<^verbatim>\<open>ResizeObserver\<close>: its loop over the entries.\<close>

definition resizeEntry :: "GraphVisualizer \<Rightarrow> GraphVisualizer" where
  "resizeEntry st =
     (let st1 = (case lastResizeTimeout st of
                   Some handle \<Rightarrow> clearTimeout handle st
                 | None \<Rightarrow> st);
          (handle, st2) = setTimeout 500 st1
      in st2\<lparr>lastResizeTimeout := Some handle\<rparr>)"

definition resizeObserverCallback :: "'entry list \<Rightarrow> GraphVisualizer \<Rightarrow> GraphVisualizer" where
  "resizeObserverCallback entries st = fold (\<lambda>entry. resizeEntry) entries st"

subsection \<open>The event loop for resize signals\<close>

text \<open>
  The browser runs a pending timer when its time has come; of several due timers the one
  with the earliest time runs first, and the one set first among equals. The model runs
  each timer exactly at its due time (or at once when that time has passed). Every timer
  of the model was set by \<^verbatim>\<open>registerResize\<close>, so running one is \<open>resizeTimeout\<close>.
\<close>

fun earliest :: "(nat \<times> nat) list \<Rightarrow> (nat \<times> nat) option" where
  "earliest [] = None"
| "earliest (t # ts) =
     (case earliest ts of
        None \<Rightarrow> Some t
      | Some t' \<Rightarrow> if snd t \<le> snd t' then Some t else Some t')"

text \<open>
  \<open>runTimers t st\<close> lets the time pass until \<open>t\<close>: it runs the timers due by then and
  returns the times at which the resize callback ran.
\<close>

function runTimers :: "nat \<Rightarrow> GraphVisualizer \<Rightarrow> nat list \<times> GraphVisualizer" where
  "runTimers t st =
     (case earliest (filter (\<lambda>(h, due). due \<le> t) (timers st)) of
        None \<Rightarrow> ([], st\<lparr>clock := max (clock st) t\<rparr>)
      | Some (handle, due) \<Rightarrow>
          let st1 = st\<lparr>clock := max (clock st) due,
                      timers := filter (\<lambda>(h, d). h \<noteq> handle) (timers st)\<rparr>;
              st2 = resizeTimeout st1;
              (ran, st3) = runTimers t st2
          in (clock st1 # ran, st3))"
  by pat_completeness auto
termination
proof (relation "measure (\<lambda>(t, st). length (timers st))")
  show "wf (measure (\<lambda>(t, st). length (timers st)))"
    by simp
next
  fix t :: nat and st :: GraphVisualizer and x2 :: "nat \<times> nat" and handle due :: nat
    and st1 st2 :: GraphVisualizer
  assume e: "earliest (filter (\<lambda>(h, due). due \<le> t) (timers st)) = Some x2"
    and x2: "(handle, due) = x2"
    and st1: "st1 = st\<lparr>clock := max (clock st) due,
                      timers := filter (\<lambda>(h, d). h \<noteq> handle) (timers st)\<rparr>"
    and st2: "st2 = resizeTimeout st1"
  have mem: "y \<in> set ts" if "earliest ts = Some y" for ts :: "(nat \<times> nat) list" and y
    using that by (induction ts arbitrary: y) (auto split: option.splits if_splits)
  have same: "timers (resizeTimeout s) = timers s" for s
    by (simp add: resizeTimeout_def applyAllForces_def applyBoundaryForce_def
        applyCenterForce_def applyChargeForce_def applyCollideForce_def Let_def)
  from e x2 have "(handle, due) \<in> set (timers st)"
    using mem by fastforce
  then have "length (filter (\<lambda>(h, d). h \<noteq> handle) (timers st)) < length (timers st)"
    by (intro length_filter_less [where x = "(handle, due)"]) simp_all
  with st1 st2 same show "((t, st2), (t, st)) \<in> measure (\<lambda>(t, st). length (timers st))"
    by simp
qed

text \<open>
  A resize signal at time \<open>t\<close>: the viewport has the new size \<open>w\<close> by \<open>h\<close>, and the
  observer's callback runs on the entries that the browser reports.
\<close>

record 'entry ResizeSignal =
  time :: nat
  newWidth :: real
  newHeight :: real
  entries :: "'entry list"

definition resizeSignal :: "'entry ResizeSignal \<Rightarrow> GraphVisualizer \<Rightarrow> nat list \<times> GraphVisualizer" where
  "resizeSignal sig st =
     (let (ran, st1) = runTimers (time sig) st;
          st2 = st1\<lparr>clientWidth := newWidth sig, clientHeight := newHeight sig\<rparr>
      in (ran, resizeObserverCallback (entries sig) st2))"

fun resizeSignals :: "'entry ResizeSignal list \<Rightarrow> GraphVisualizer \<Rightarrow> nat list \<times> GraphVisualizer" where
  "resizeSignals [] st = ([], st)"
| "resizeSignals (sig # sigs) st =
     (let (ran, st1) = resizeSignal sig st;
          (ran', st2) = resizeSignals sigs st1
      in (ran @ ran', st2))"

text \<open>A burst: every signal arrives less than 500 ms after the one before it.\<close>

fun burst :: "nat list \<Rightarrow> bool" where
  "burst (t # t' # ts) = (t \<le> t' \<and> t' < t + 500 \<and> burst (t' # ts))"
| "burst ts = True"

text \<open>
  The two states of the debounce: no timer pending, or exactly the timer whose handle is
  in \<^verbatim>\<open>lastResizeTimeout\<close>, due at the given time.
\<close>

definition idle :: "GraphVisualizer \<Rightarrow> bool" where
  "idle st = (timers st = [] \<and> lastResizeTimeout st = None)"

definition pending :: "nat \<Rightarrow> GraphVisualizer \<Rightarrow> bool" where
  "pending due st = (timers st = [(the (lastResizeTimeout st), due)] \<and> lastResizeTimeout st \<noteq> None)"

subsection \<open>The tick callback\<close>

text \<open>\<^verbatim>\<open>v ?? assert.fail()\<close>.\<close>

definition orFail :: "real option \<Rightarrow> AssertionError + real" where
  "orFail v = (case v of None \<Rightarrow> Inl AssertionError | Some r \<Rightarrow> Inr r)"

text \<open>
  \<^verbatim>\<open>selection.attr(name, f)\<close> on the lines: \<open>f\<close> is evaluated for one element after the
  other, and the first failure ends the call.
\<close>

fun attrLines :: "(LineElement \<Rightarrow> AssertionError + LineElement) \<Rightarrow> LineElement list
    \<Rightarrow> AssertionError + LineElement list" where
  "attrLines f [] = Inr []"
| "attrLines f (e # es) =
     (case f e of
        Inl err \<Rightarrow> Inl err
      | Inr e' \<Rightarrow> (case attrLines f es of Inl err \<Rightarrow> Inl err | Inr es' \<Rightarrow> Inr (e' # es')))"

text \<open>
  \<^verbatim>\<open>selection.data(data)\<close> without a key joins by index: the \<open>i\<close>-th element takes the
  \<open>i\<close>-th datum; elements beyond the data keep theirs and are not in the update selection.
\<close>

definition selectLinks :: "GraphVisualizer \<Rightarrow> LineElement list" where
  "selectLinks st = map (\<lambda>(e, d). e\<lparr>datum_l := d\<rparr>) (zip (lineElements st) (links st))"

definition selectNodes :: "GraphVisualizer \<Rightarrow> NodeGroup list" where
  "selectNodes st = map (\<lambda>(e, d). e\<lparr>datum_g := d\<rparr>) (zip (nodeGroups st) (nodes st))"

text \<open>
  \<^verbatim>\<open>ticked\<close>. A failure is the result \<open>Inl AssertionError\<close>; the attributes written before
  the failure are not kept in the model.
\<close>

definition ticked :: "GraphVisualizer \<Rightarrow> AssertionError + GraphVisualizer" where
  "ticked st =
     (case attrLines (\<lambda>e. case orFail (x_n (heap st (source (datum_l e)))) of
                             Inl err \<Rightarrow> Inl err | Inr v \<Rightarrow> Inr (e\<lparr>x1_attr := Some v\<rparr>))
             (selectLinks st) of
        Inl err \<Rightarrow> Inl err
      | Inr ls1 \<Rightarrow>
     (case attrLines (\<lambda>e. case orFail (y_n (heap st (source (datum_l e)))) of
                             Inl err \<Rightarrow> Inl err | Inr v \<Rightarrow> Inr (e\<lparr>y1_attr := Some v\<rparr>))
             ls1 of
        Inl err \<Rightarrow> Inl err
      | Inr ls2 \<Rightarrow>
     (case attrLines (\<lambda>e. case orFail (x_n (heap st (target (datum_l e)))) of
                             Inl err \<Rightarrow> Inl err | Inr v \<Rightarrow> Inr (e\<lparr>x2_attr := Some v\<rparr>))
             ls2 of
        Inl err \<Rightarrow> Inl err
      | Inr ls3 \<Rightarrow>
     (case attrLines (\<lambda>e. case orFail (y_n (heap st (target (datum_l e)))) of
                             Inl err \<Rightarrow> Inl err | Inr v \<Rightarrow> Inr (e\<lparr>y2_attr := Some v\<rparr>))
             ls3 of
        Inl err \<Rightarrow> Inl err
      | Inr ls4 \<Rightarrow>
          Inr (st\<lparr>lineElements := ls4 @ drop (length (links st)) (lineElements st),
                  nodeGroups :=
                    map (\<lambda>e. e\<lparr>transform_attr :=
                                 Some (x_n (heap st (datum_g e)), y_n (heap st (datum_g e)))\<rparr>)
                      (selectNodes st)
                    @ drop (length (nodes st)) (nodeGroups st)\<rparr>)))))"

text \<open>
  A link that makes \<^verbatim>\<open>ticked\<close> fail, and what a successful \<^verbatim>\<open>ticked\<close> writes to one line
  and to one group.
\<close>

definition undefinedEndpoint :: "GraphVisualizer \<Rightarrow> Link \<Rightarrow> bool" where
  "undefinedEndpoint st l =
     (x_n (heap st (source l)) = None \<or> y_n (heap st (source l)) = None \<or>
      x_n (heap st (target l)) = None \<or> y_n (heap st (target l)) = None)"

definition tickedLine :: "GraphVisualizer \<Rightarrow> LineElement \<Rightarrow> LineElement" where
  "tickedLine st e =
     e\<lparr>x1_attr := x_n (heap st (source (datum_l e))),
       y1_attr := y_n (heap st (source (datum_l e))),
       x2_attr := x_n (heap st (target (datum_l e))),
       y2_attr := y_n (heap st (target (datum_l e)))\<rparr>"

definition tickedGroup :: "GraphVisualizer \<Rightarrow> NodeGroup \<Rightarrow> NodeGroup" where
  "tickedGroup st e =
     e\<lparr>transform_attr := Some (x_n (heap st (datum_g e)), y_n (heap st (datum_g e)))\<rparr>"

subsection \<open>Example inputs\<close>

text \<open>
  Node objects for the concrete instances below: a parent in the middle of a 1000 by 1000
  viewport, a child that lies outside of it, and at every other address a node as the
  page builds it, without position and velocity.
\<close>

definition nodeA :: Node where
  "nodeA = \<lparr>id_n = ''a'', image_n = ''/static/images/profile.jpg'',
     description = Some ''root'', relSize = 1, relDistance = 1,
     x_n = Some 500, y_n = Some 500, vx_n = Some 3, vy_n = Some (- 2)\<rparr>"

definition nodeB :: Node where
  "nodeB = \<lparr>id_n = ''b'', image_n = ''/static/images/cv.png'',
     description = Some ''child'', relSize = 0.65, relDistance = 0.6,
     x_n = Some (- 50), y_n = Some 2000, vx_n = Some 1, vy_n = Some 1\<rparr>"

definition nodeC :: Node where
  "nodeC = \<lparr>id_n = ''c'', image_n = ''/static/images/link.png'',
     description = None, relSize = 0.65, relDistance = 0.6,
     x_n = None, y_n = None, vx_n = None, vy_n = None\<rparr>"

definition exampleHeap :: "nat \<Rightarrow> Node" where
  "exampleHeap = (\<lambda>a. nodeC)(0 := nodeA, Suc 0 := nodeB)"

definition exampleVisualizer :: GraphVisualizer where
  "exampleVisualizer = addNode (Suc 0) (addNode 0 (constructor 1000 1000 exampleHeap))"

text \<open>The example with a link between its two nodes, and with a link to a node that was never added.\<close>

definition linkedExample :: GraphVisualizer where
  "linkedExample = addLink \<lparr>source = 0, target = Suc 0\<rparr> exampleVisualizer"

definition danglingExample :: GraphVisualizer where
  "danglingExample = addLink \<lparr>source = 0, target = 2\<rparr> exampleVisualizer"


definition exampleBurst :: "unit ResizeSignal list" where
  "exampleBurst =
     [\<lparr>time = 0, newWidth = 900, newHeight = 700, entries = [()]\<rparr>,
      \<lparr>time = 100, newWidth = 800, newHeight = 600, entries = [()]\<rparr>,
      \<lparr>time = 550, newWidth = 500, newHeight = 400, entries = [(), ()]\<rparr>]"

text \<open>The linked example after its viewport has shrunk to 500 by 500 and the timer has run.\<close>

definition resizedExample :: GraphVisualizer where
  "resizedExample =
     resizeTimeout (linkedExample\<lparr>clientWidth := 500, clientHeight := 500\<rparr>)"

section \<open>Properties of the CV tree\<close>

lemma walkTree_item:
  "walkTree it t = Some r \<Longrightarrow> item r = it \<and> it \<in> set (treeItems t)"
  "walkChildren it ts = Some r \<Longrightarrow> item r = it \<and> it \<in> set (concat (map treeItems ts))"
  by (induction it t and it ts rule: walkTree_walkChildren.induct)
     (auto split: if_splits option.splits)

lemma treeItems_pushChild:
  "set (treeItems (pushChild it c t)) \<subseteq> set (treeItems t) \<union> set (treeItems c)"
  "set (concat (map treeItems (pushChildren it c ts)))
     \<subseteq> set (concat (map treeItems ts)) \<union> set (treeItems c)"
  by (induction it c t and it c ts rule: pushChild_pushChildren.induct) auto

text \<open>
  One call of \<^verbatim>\<open>addItem\<close> keeps every reachable item positive, whenever the values the
  caller supplies (if any) are positive.
\<close>

lemma addItem_positiveItems:
  assumes "positiveItems s"
    and "addItem info parent s = Some (a, s')"
    and "case relSize_info info of None \<Rightarrow> True | Some z \<Rightarrow> 0 < z"
    and "case relDistance_info info of None \<Rightarrow> True | Some d \<Rightarrow> 0 < d"
  shows "positiveItems s'"
proof -
  from assms(2) obtain parentTree where f: "walkTree parent (tree s) = Some parentTree"
    by (auto simp: addItem_def findItem_def split: option.splits)
  then have p: "item parentTree \<in> set (treeItems (tree s))"
    using walkTree_item(1) by blast
  with assms(1) have lt: "item parentTree < length (items s)"
    by (simp add: positiveItems_def list_all_iff)
  with assms(1) have pos: "0 < CVItem.relSize (items s ! item parentTree)"
    "0 < CVItem.relDistance (items s ! item parentTree)"
    by (simp_all add: positiveItems_def list_all_iff)
  from assms(2) f have a: "a = length (items s)"
    and t: "tree s' = pushChild (item parentTree) (Tree a []) (tree s)"
    and i: "items s' = items s @ [\<lparr>picture = picture_info info,
                     description = description_info info,
                     depth = depth (items s ! item parentTree) + 1,
                     relDistance = (case relDistance_info info of
                                      Some d \<Rightarrow> d | None \<Rightarrow> CVItem.relDistance (items s ! item parentTree) * 0.6),
                     relSize = (case relSize_info info of
                                  Some z \<Rightarrow> z | None \<Rightarrow> (if depth (items s ! item parentTree) \<ge> 2 then CVItem.relSize (items s ! item parentTree) else CVItem.relSize (items s ! item parentTree) * 0.65))\<rparr>]"
    by (auto simp: addItem_def findItem_def Let_def)
  have sub: "set (treeItems (tree s')) \<subseteq> set (treeItems (tree s)) \<union> {a}"
    using treeItems_pushChild(1) [of "item parentTree" "Tree a []" "tree s"] t by simp
  have "b < length (items s')" if "b \<in> set (treeItems (tree s'))" for b
  proof -
    from that sub have "b \<in> set (treeItems (tree s)) \<or> b = a" by blast
    with assms(1) a i show ?thesis
      by (auto simp: positiveItems_def list_all_iff less_Suc_eq)
  qed
  then have 1: "list_all (\<lambda>a. a < length (items s')) (treeItems (tree s'))"
    by (simp add: list_all_iff)
  from assms(1,3,4) pos i
  have 2: "list_all (\<lambda>i. 0 < CVItem.relSize i \<and> 0 < CVItem.relDistance i) (items s')"
    by (auto simp: positiveItems_def split: option.splits)
  from 1 2 show ?thesis by (simp add: positiveItems_def)
qed

lemma walkTree_found:
  "(walkTree it t \<noteq> None) = (it \<in> set (treeItems t))"
  "(walkChildren it ts \<noteq> None) = (it \<in> set (concat (map treeItems ts)))"
  by (induction it t and it ts rule: walkTree_walkChildren.induct)
     (auto split: option.splits)

text \<open>What one successful call of \<^verbatim>\<open>addItem\<close> returns and stores.\<close>

lemma addItem_derives:
  assumes "addItem info parent s = Some (a, s')"
  shows "a = length (items s) \<and>
    items s' = items s @ [items s' ! a] \<and>
    tree s' = pushChild parent (Tree a []) (tree s) \<and>
    picture (items s' ! a) = picture_info info \<and>
    CVItem.description (items s' ! a) = description_info info \<and>
    depth (items s' ! a) = depth (items s ! parent) + 1 \<and>
    CVItem.relDistance (items s' ! a) =
      (case relDistance_info info of
         Some d \<Rightarrow> d | None \<Rightarrow> CVItem.relDistance (items s ! parent) * 0.6) \<and>
    CVItem.relSize (items s' ! a) =
      (case relSize_info info of
         Some z \<Rightarrow> z
       | None \<Rightarrow> if depth (items s ! parent) \<ge> 2 then CVItem.relSize (items s ! parent)
                 else CVItem.relSize (items s ! parent) * 0.65)"
proof -
  from assms obtain parentTree where f: "walkTree parent (tree s) = Some parentTree"
    by (auto simp: addItem_def findItem_def split: option.splits)
  then have p: "item parentTree = parent"
    using walkTree_item(1) by blast
  from assms f show ?thesis
    unfolding p [symmetric]
    by (auto simp: addItem_def findItem_def Let_def)
qed

lemma addItem_fails:
  "(addItem info parent s = None) = (parent \<notin> set (treeItems (tree s)))"
proof -
  have "(addItem info parent s = None) = (walkTree parent (tree s) = None)"
    by (simp add: addItem_def findItem_def Let_def split: option.splits)
  then show ?thesis
    using walkTree_found(1) [of parent "tree s"] by auto
qed

lemma dataModule_eval:
  "case dataModule of
     None \<Rightarrow> False
   | Some s \<Rightarrow>
       CVItem.relSize (items s ! rootItem) = 1 \<and> CVItem.relDistance (items s ! rootItem) = 1 \<and>
       list_all (\<lambda>a. 0 < CVItem.relSize (items s ! a) \<and> 0 < CVItem.relDistance (items s ! a))
         (treeItems (getTree s)) \<and>
       map depth (items s) =
         [0, 1, 1, 1, 1, 2, 2, 1, 2, 2, 2, 2, 3, 3, 2, 2, 2, 2, 3, 3, 3, 3, 3,
          2, 2, 3, 3, 2] \<and>
       treeItems (getTree s) =
         [0, 1, 2, 14, 15, 16, 17, 18, 19, 20, 21, 22, 3, 23, 25, 26, 24, 27, 4,
          5, 6, 7, 8, 9, 10, 12, 13, 11] \<and>
       derivedTree (items s) (getTree s)"
  by code_simp

text \<open>
  C10. The module's statements all succeed, and in the tree they build the root has
  \<open>relSize = 1\<close> and \<open>relDistance = 1\<close>, every reachable item has strictly positive
  \<open>relSize\<close> and \<open>relDistance\<close>, and every child has the \<open>relSize\<close> of its parent, times
  0.65 when the parent's depth is below 2, and the \<open>relDistance\<close> of its parent times 0.6;
  the depths of the 28 items and the pre-order of the tree are those of the source's calls.
  A call of \<^verbatim>\<open>addItem\<close> fails exactly when the parent is not in the tree; one that
  succeeds appends one item as the last child of the parent, with the caller's picture and
  description, one more than the parent's depth, and for \<open>relSize\<close> and \<open>relDistance\<close>
  the values that the caller supplies and else those derived from the parent; it keeps
  all items positive when the supplied values are positive.
\<close>

theorem dataModule_positive:
  "(\<exists>s. dataModule = Some s \<and>
       CVItem.relSize (items s ! rootItem) = 1 \<and> CVItem.relDistance (items s ! rootItem) = 1 \<and>
       (\<forall>a \<in> set (treeItems (getTree s)).
          0 < CVItem.relSize (items s ! a) \<and> 0 < CVItem.relDistance (items s ! a)) \<and>
       map depth (items s) =
         [0, 1, 1, 1, 1, 2, 2, 1, 2, 2, 2, 2, 3, 3, 2, 2, 2, 2, 3, 3, 3, 3, 3,
          2, 2, 3, 3, 2] \<and>
       treeItems (getTree s) =
         [0, 1, 2, 14, 15, 16, 17, 18, 19, 20, 21, 22, 3, 23, 25, 26, 24, 27, 4,
          5, 6, 7, 8, 9, 10, 12, 13, 11] \<and>
       derivedTree (items s) (getTree s)) \<and>
   (addItem info parent s0 = None) = (parent \<notin> set (treeItems (tree s0))) \<and>
   (addItem info parent s0 = Some (a, s') \<longrightarrow>
      a = length (items s0) \<and>
      items s' = items s0 @ [items s' ! a] \<and>
      tree s' = pushChild parent (Tree a []) (tree s0) \<and>
      picture (items s' ! a) = picture_info info \<and>
      CVItem.description (items s' ! a) = description_info info \<and>
      depth (items s' ! a) = depth (items s0 ! parent) + 1 \<and>
      CVItem.relDistance (items s' ! a) =
        (case relDistance_info info of
           Some d \<Rightarrow> d | None \<Rightarrow> CVItem.relDistance (items s0 ! parent) * 0.6) \<and>
      CVItem.relSize (items s' ! a) =
        (case relSize_info info of
           Some z \<Rightarrow> z
         | None \<Rightarrow> if depth (items s0 ! parent) \<ge> 2 then CVItem.relSize (items s0 ! parent)
                   else CVItem.relSize (items s0 ! parent) * 0.65)) \<and>
   (positiveItems s0 \<and> addItem info parent s0 = Some (a, s') \<and>
    (case relSize_info info of None \<Rightarrow> True | Some z \<Rightarrow> 0 < z) \<and>
    (case relDistance_info info of None \<Rightarrow> True | Some d \<Rightarrow> 0 < d) \<longrightarrow>
      positiveItems s')"
proof -
  have module: "\<exists>s. dataModule = Some s \<and>
       CVItem.relSize (items s ! rootItem) = 1 \<and> CVItem.relDistance (items s ! rootItem) = 1 \<and>
       (\<forall>a \<in> set (treeItems (getTree s)).
          0 < CVItem.relSize (items s ! a) \<and> 0 < CVItem.relDistance (items s ! a)) \<and>
       map depth (items s) =
         [0, 1, 1, 1, 1, 2, 2, 1, 2, 2, 2, 2, 3, 3, 2, 2, 2, 2, 3, 3, 3, 3, 3,
          2, 2, 3, 3, 2] \<and>
       treeItems (getTree s) =
         [0, 1, 2, 14, 15, 16, 17, 18, 19, 20, 21, 22, 3, 23, 25, 26, 24, 27, 4,
          5, 6, 7, 8, 9, 10, 12, 13, 11] \<and>
       derivedTree (items s) (getTree s)"
  proof (cases dataModule)
    case None
    with dataModule_eval show ?thesis by simp
  next
    case (Some s)
    from dataModule_eval show ?thesis
      unfolding Some by (simp add: list_all_iff)
  qed
  have one: "a = length (items s0) \<and>
      items s' = items s0 @ [items s' ! a] \<and>
      tree s' = pushChild parent (Tree a []) (tree s0) \<and>
      picture (items s' ! a) = picture_info info \<and>
      CVItem.description (items s' ! a) = description_info info \<and>
      depth (items s' ! a) = depth (items s0 ! parent) + 1 \<and>
      CVItem.relDistance (items s' ! a) =
        (case relDistance_info info of
           Some d \<Rightarrow> d | None \<Rightarrow> CVItem.relDistance (items s0 ! parent) * 0.6) \<and>
      CVItem.relSize (items s' ! a) =
        (case relSize_info info of
           Some z \<Rightarrow> z
         | None \<Rightarrow> if depth (items s0 ! parent) \<ge> 2 then CVItem.relSize (items s0 ! parent)
                   else CVItem.relSize (items s0 ! parent) * 0.65)"
    if "addItem info parent s0 = Some (a, s')"
    using addItem_derives [OF that] by (elim conjE, intro conjI) assumption+
  have keep: "positiveItems s'"
    if "positiveItems s0" and "addItem info parent s0 = Some (a, s')"
      and "case relSize_info info of None \<Rightarrow> True | Some z \<Rightarrow> 0 < z"
      and "case relDistance_info info of None \<Rightarrow> True | Some d \<Rightarrow> 0 < d"
    using that by (rule addItem_positiveItems)
  from module addItem_fails [of info parent s0] one keep show ?thesis
    by blast
qed

lemma dataModule_codeforces: "18 \<in> set (treeItems (getTree (the dataModule)))"
  by code_simp

lemma addItem_examples:
  "addItem exampleInfo rootItem initialModule =
     Some (1, \<lparr>items = items initialModule @
                  [\<lparr>picture = ''/static/images/cv.png'', description = None, depth = 1,
                    relDistance = 2, relSize = 3\<rparr>],
               tree = Tree 0 [Tree 1 []]\<rparr>)"
  "addItem plainInfo rootItem initialModule =
     Some (1, \<lparr>items = items initialModule @
                  [\<lparr>picture = ''/static/images/cv.png'', description = None, depth = 1,
                    relDistance = 0.6, relSize = 0.65\<rparr>],
               tree = Tree 0 [Tree 1 []]\<rparr>)"
  "addItem plainInfo 5 initialModule = None"
  "positiveItems initialModule"
  by (simp_all add: addItem_def findItem_def initialModule_def rootItem_def exampleInfo_def
      plainInfo_def positiveItems_def Let_def)

theorem dataModule_positive_witness:
  "18 \<in> set (treeItems (getTree (the dataModule))) \<and>
   0 < CVItem.relSize (items (the dataModule) ! 18) \<and>
   0 < CVItem.relDistance (items (the dataModule) ! 18) \<and>
   derivedTree (items (the dataModule)) (getTree (the dataModule)) \<and>
   CVItem.relSize (items (snd (the (addItem exampleInfo rootItem initialModule))) ! 1) = 3 \<and>
   CVItem.relDistance (items (snd (the (addItem exampleInfo rootItem initialModule))) ! 1) = 2 \<and>
   CVItem.relSize (items (snd (the (addItem plainInfo rootItem initialModule))) ! 1) = 0.65 \<and>
   CVItem.relDistance (items (snd (the (addItem plainInfo rootItem initialModule))) ! 1) = 0.6 \<and>
   addItem plainInfo 5 initialModule = None \<and>
   positiveItems initialModule \<and>
   positiveItems (snd (the (addItem exampleInfo rootItem initialModule)))"
proof -
  from dataModule_positive obtain s where s: "dataModule = Some s"
    and pos: "\<forall>a \<in> set (treeItems (getTree s)).
          0 < CVItem.relSize (items s ! a) \<and> 0 < CVItem.relDistance (items s ! a)"
    and der: "derivedTree (items s) (getTree s)"
    by blast
  have eq: "the dataModule = s" unfolding s by (rule option.sel)
  have old: "18 \<in> set (treeItems (getTree (the dataModule))) \<and>
     0 < CVItem.relSize (items (the dataModule) ! 18) \<and>
     0 < CVItem.relDistance (items (the dataModule) ! 18) \<and>
     derivedTree (items (the dataModule)) (getTree (the dataModule))"
    using dataModule_codeforces pos der unfolding eq by blast
  let ?e = "snd (the (addItem exampleInfo rootItem initialModule))"
  let ?p = "snd (the (addItem plainInfo rootItem initialModule))"
  have e: "addItem exampleInfo rootItem initialModule = Some (1, ?e)"
    and p: "addItem plainInfo rootItem initialModule = Some (1, ?p)"
    by (simp_all add: addItem_examples)
  have root: "items initialModule ! rootItem = \<lparr>picture = ''/static/images/profile.jpg'',
      description = None, depth = 0, relDistance = 1, relSize = 1\<rparr>"
    by (simp add: initialModule_def rootItem_def)
  have "CVItem.relSize (items ?e ! 1) =
      (case relSize_info exampleInfo of
         Some z \<Rightarrow> z
       | None \<Rightarrow> if depth (items initialModule ! rootItem) \<ge> 2
                 then CVItem.relSize (items initialModule ! rootItem)
                 else CVItem.relSize (items initialModule ! rootItem) * 0.65)"
    and "CVItem.relDistance (items ?e ! 1) =
      (case relDistance_info exampleInfo of
         Some d \<Rightarrow> d | None \<Rightarrow> CVItem.relDistance (items initialModule ! rootItem) * 0.6)"
    using dataModule_positive [of exampleInfo rootItem initialModule 1 ?e] e by blast+
  then have ex: "CVItem.relSize (items ?e ! 1) = 3 \<and> CVItem.relDistance (items ?e ! 1) = 2"
    by (simp add: exampleInfo_def)
  have supplied: "case relSize_info exampleInfo of None \<Rightarrow> True | Some z \<Rightarrow> 0 < z"
    "case relDistance_info exampleInfo of None \<Rightarrow> True | Some d \<Rightarrow> 0 < d"
    by (simp_all add: exampleInfo_def)
  have kept: "positiveItems ?e"
    using dataModule_positive [of exampleInfo rootItem initialModule 1 ?e] e supplied
      addItem_examples(4)
    by blast
  have "CVItem.relSize (items ?p ! 1) =
      (case relSize_info plainInfo of
         Some z \<Rightarrow> z
       | None \<Rightarrow> if depth (items initialModule ! rootItem) \<ge> 2
                 then CVItem.relSize (items initialModule ! rootItem)
                 else CVItem.relSize (items initialModule ! rootItem) * 0.65)"
    and "CVItem.relDistance (items ?p ! 1) =
      (case relDistance_info plainInfo of
         Some d \<Rightarrow> d | None \<Rightarrow> CVItem.relDistance (items initialModule ! rootItem) * 0.6)"
    using dataModule_positive [of plainInfo rootItem initialModule 1 ?p] p by blast+
  then have pl: "CVItem.relSize (items ?p ! 1) = 0.65 \<and>
      CVItem.relDistance (items ?p ! 1) = 0.6"
    by (simp add: plainInfo_def root)
  have "5 \<notin> set (treeItems (tree initialModule))"
    by (simp add: initialModule_def rootItem_def)
  then have none: "addItem plainInfo 5 initialModule = None"
    using dataModule_positive [of plainInfo 5 initialModule] by blast
  from old ex kept pl none addItem_examples(4) show ?thesis by simp
qed

section \<open>Properties of the visualizer\<close>

subsection \<open>The example visualizer\<close>

lemmas visualizer_defs = constructor_def applyAllForces_def applyBoundaryForce_def
  applyCenterForce_def applyChargeForce_def applyCollideForce_def addNode_def addLink_def
  update_def joinNodes_def joinLinks_def bindNodes_def bindLinks_def simulationNodes_def
  forceLink_def initializeNode_def enterNode_def enterPattern_def enterLine_def
  enterSelection_def nodeKey_def linkKey_def discRadius_def collideRadius_def
  exampleHeap_def nodeA_def nodeB_def nodeC_def Let_def

lemma exampleVisualizer_nodes: "nodes exampleVisualizer = [0, Suc 0]"
  by (simp add: exampleVisualizer_def visualizer_defs)

lemma exampleVisualizer_config:
  "config exampleVisualizer =
     \<lparr>linkDistanceUnit = 300, chargeStrength = - 60, circleRadiusUnit = 80\<rparr>"
  by (simp add: exampleVisualizer_def visualizer_defs)

lemma exampleVisualizer_heap:
  "heap exampleVisualizer 0 = nodeA" "heap exampleVisualizer (Suc 0) = nodeB"
  by (simp_all add: exampleVisualizer_def visualizer_defs)

lemma exampleVisualizer_collide:
  "collide (simulation exampleVisualizer) = Some [90, 62]"
  by (simp add: exampleVisualizer_def visualizer_defs)

lemma exampleVisualizer_timers:
  "timers exampleVisualizer = []" "lastResizeTimeout exampleVisualizer = None"
  "clock exampleVisualizer = 0"
  by (simp_all add: exampleVisualizer_def visualizer_defs)

lemma linkedExample_nodes: "nodes linkedExample = [0, Suc 0]"
  by (simp add: linkedExample_def exampleVisualizer_def visualizer_defs)

lemma linkedExample_links: "links linkedExample = [\<lparr>source = 0, target = Suc 0\<rparr>]"
  by (simp add: linkedExample_def exampleVisualizer_def visualizer_defs)

lemma linkedExample_heap: "heap linkedExample 0 = nodeA" "heap linkedExample (Suc 0) = nodeB"
  by (simp_all add: linkedExample_def exampleVisualizer_def visualizer_defs)

lemma linkedExample_dom:
  "map (\<lambda>g. map r_attr (circles g)) (nodeGroups linkedExample) = [[80, 80], [52, 52]]"
  "map width_attr (defs linkedExample) = [160, 104]"
  "map x_attr (defs linkedExample) = [- 80, - 52]"
  "link (simulation linkedExample) = Some (0.07, [180])"
  by (simp_all add: linkedExample_def exampleVisualizer_def visualizer_defs)

subsection \<open>Configuration\<close>

text \<open>
  C1. For a viewport of size \<open>w\<close> by \<open>h\<close> and \<open>s = min w h\<close>, the configuration set by the
  constructor is \<open>linkDistanceUnit = 300 * (s / 1000) = 0.3 * s\<close>,
  \<open>circleRadiusUnit = 80 * (s / 1000) = 0.08 * s\<close> and
  \<open>chargeStrength = - 60 * (s / 1000) = - 0.06 * s\<close>, whatever the rest of the input is,
  and the resize handler sets the same values from the size of the viewport at that time.
\<close>

theorem config_linear:
  "config (constructor w h hp) =
     \<lparr>linkDistanceUnit = 300 * (min w h / 1000),
      chargeStrength = - 60 * (min w h / 1000),
      circleRadiusUnit = 80 * (min w h / 1000)\<rparr> \<and>
   config (constructor w h hp) =
     \<lparr>linkDistanceUnit = 0.3 * min w h,
      chargeStrength = - 0.06 * min w h,
      circleRadiusUnit = 0.08 * min w h\<rparr> \<and>
   config (resizeTimeout st) =
     \<lparr>linkDistanceUnit = 0.3 * min (clientWidth st) (clientHeight st),
      chargeStrength = - 0.06 * min (clientWidth st) (clientHeight st),
      circleRadiusUnit = 0.08 * min (clientWidth st) (clientHeight st)\<rparr>"
  by (simp add: constructor_def resizeTimeout_def applyAllForces_def applyBoundaryForce_def
      applyCenterForce_def applyChargeForce_def applyCollideForce_def Let_def)

theorem config_linear_witness:
  "config (constructor 1000 800 exampleHeap) =
     \<lparr>linkDistanceUnit = 240, chargeStrength = - 48, circleRadiusUnit = 64\<rparr>"
  using config_linear [of 1000 800 exampleHeap] by simp

subsection \<open>The boundary force\<close>

lemma boundaryNode_frame:
  "x_n (boundaryNode params cfg al node) = x_n node"
  "y_n (boundaryNode params cfg al node) = y_n node"
  "relSize (boundaryNode params cfg al node) = relSize node"
  "id_n (boundaryNode params cfg al node) = id_n node"
  by (simp_all add: boundaryNode_def Let_def split: option.splits)

lemma boundaryNode_inside:
  assumes "x_n node = Some px" and "y_n node = Some py"
    and "relSize node * circleRadiusUnit cfg < px"
    and "px < width params - relSize node * circleRadiusUnit cfg"
    and "relSize node * circleRadiusUnit cfg < py"
    and "py < height params - relSize node * circleRadiusUnit cfg"
  shows "boundaryNode params cfg al node = node"
  using assms by (simp add: boundaryNode_def Let_def split: option.splits)

lemma fold_boundaryNode_fixed:
  assumes "boundaryNode params cfg al (h a) = h a"
  shows "fold (\<lambda>b g. g(b := boundaryNode params cfg al (g b))) bs h a = h a"
  using assms
proof (induction bs arbitrary: h)
  case Nil
  then show ?case by simp
next
  case (Cons b bs)
  let ?h = "h(b := boundaryNode params cfg al (h b))"
  from Cons.prems have same: "?h a = h a" by (cases "a = b") simp_all
  with Cons.prems have fixed: "boundaryNode params cfg al (?h a) = ?h a" by metis
  have "fold (\<lambda>b g. g(b := boundaryNode params cfg al (g b))) (b # bs) h a =
      fold (\<lambda>b g. g(b := boundaryNode params cfg al (g b))) bs ?h a"
    by (simp only: fold_simps o_apply)
  also have "\<dots> = ?h a"
    using fixed by (rule Cons.IH [of ?h])
  also have "\<dots> = h a"
    by (rule same)
  finally show ?case .
qed

lemma fold_boundaryNode_frame:
  "x_n (fold (\<lambda>b g. g(b := boundaryNode params cfg al (g b))) bs h a) = x_n (h a) \<and>
   y_n (fold (\<lambda>b g. g(b := boundaryNode params cfg al (g b))) bs h a) = y_n (h a)"
proof (induction bs arbitrary: h)
  case Nil
  show ?case by simp
next
  case (Cons b bs)
  show ?case
    using Cons.IH [of "h(b := boundaryNode params cfg al (h b))"]
    by (simp add: boundaryNode_frame)
qed

text \<open>
  C2. A node whose disc of radius \<open>r = relSize * circleRadiusUnit\<close> lies strictly inside
  the bounds (\<open>r < x < width - r\<close> and \<open>r < y < height - r\<close>) keeps its \<open>vx\<close> and \<open>vy\<close>
  in one application of the boundary force, for every \<open>alpha\<close>.
\<close>

theorem boundaryForce_inside_noop:
  assumes "x_n (heap st a) = Some px" and "y_n (heap st a) = Some py"
    and "r = relSize (heap st a) * circleRadiusUnit (config st)"
    and "r < px" and "px < width params - r"
    and "r < py" and "py < height params - r"
  shows "vx_n (heap (boundaryForce params al st) a) = vx_n (heap st a) \<and>
         vy_n (heap (boundaryForce params al st) a) = vy_n (heap st a)"
proof -
  from assms have "boundaryNode params (config st) al (heap st a) = heap st a"
    by (intro boundaryNode_inside) simp_all
  then have "heap (boundaryForce params al st) a = heap st a"
    by (simp add: boundaryForce_def fold_boundaryNode_fixed)
  then show ?thesis by simp
qed

theorem boundaryForce_inside_noop_witness:
  "x_n (heap exampleVisualizer 0) = Some 500 \<and> y_n (heap exampleVisualizer 0) = Some 500 \<and>
   relSize (heap exampleVisualizer 0) * circleRadiusUnit (config exampleVisualizer) = 80 \<and>
   vx_n (heap (boundaryForce \<lparr>width = 1000, height = 1000, strength = 0.3\<rparr> 1
                 exampleVisualizer) 0) = Some 3 \<and>
   vy_n (heap (boundaryForce \<lparr>width = 1000, height = 1000, strength = 0.3\<rparr> 1
                 exampleVisualizer) 0) = Some (- 2)"
  using boundaryForce_inside_noop [of exampleVisualizer 0 500 500 80
      "\<lparr>width = 1000, height = 1000, strength = 0.3\<rparr>" 1]
  by (simp add: exampleVisualizer_heap exampleVisualizer_config nodeA_def)

text \<open>
  C3. One application of the boundary force leaves the \<open>x\<close> and \<open>y\<close> of every node as
  they were: it corrects velocities only, and a node outside the bounds stays outside.
\<close>

theorem boundaryForce_keeps_positions:
  "x_n (heap (boundaryForce params al st) a) = x_n (heap st a) \<and>
   y_n (heap (boundaryForce params al st) a) = y_n (heap st a)"
  by (simp add: boundaryForce_def fold_boundaryNode_frame)

text \<open>
  The child of the example lies left of the bounds (\<open>x = - 50\<close>, disc radius \<open>52\<close>); the
  force leaves it there.
\<close>

theorem boundaryForce_keeps_positions_witness:
  "x_n (heap (boundaryForce \<lparr>width = 1000, height = 1000, strength = 0.3\<rparr> 1
                exampleVisualizer) (Suc 0)) = Some (- 50) \<and>
   relSize (heap exampleVisualizer (Suc 0)) * circleRadiusUnit (config exampleVisualizer) = 52"
  using boundaryForce_keeps_positions [of "\<lparr>width = 1000, height = 1000, strength = 0.3\<rparr>" 1
      exampleVisualizer "Suc 0"]
  by (simp add: exampleVisualizer_heap exampleVisualizer_config nodeB_def)

subsection \<open>The collision force\<close>

text \<open>
  C4, as the code has it. The collision force gives every node the radius
  \<open>relSize * circleRadiusUnit + 10\<close>: the disc radius and a buffer of 10.
\<close>

theorem applyCollideForce_radius:
  "collide (simulation (applyCollideForce st)) =
     Some (map (\<lambda>a. relSize (heap st a) * circleRadiusUnit (config st) + 10) (nodes st)) \<and>
   collideRadius cfg d = relSize d * circleRadiusUnit cfg + 10"
  by (simp add: applyCollideForce_def collideRadius_def)

theorem applyCollideForce_radius_witness:
  "collide (simulation (applyCollideForce exampleVisualizer)) = Some [90, 62]"
  using applyCollideForce_radius [of exampleVisualizer]
  by (simp add: exampleVisualizer_heap exampleVisualizer_config exampleVisualizer_nodes
      nodeA_def nodeB_def)

text \<open>
  C4 as the claim states it fails: for the parent of the example the disc radius is 80 and
  the collision radius is 90.
\<close>

theorem collide_radius_counterexample:
  "collideRadius (config exampleVisualizer) (heap exampleVisualizer 0) \<noteq>
     relSize (heap exampleVisualizer 0) * circleRadiusUnit (config exampleVisualizer) \<and>
   the (collide (simulation exampleVisualizer)) ! 0 \<noteq>
     relSize (heap exampleVisualizer 0) * circleRadiusUnit (config exampleVisualizer)"
  by (simp add: collideRadius_def exampleVisualizer_heap exampleVisualizer_config
      exampleVisualizer_collide nodeA_def)

subsection \<open>The resize handler\<close>

declare runTimers.simps [simp del]

lemmas force_defs = applyAllForces_def applyBoundaryForce_def
  applyCenterForce_def applyChargeForce_def applyCollideForce_def

lemma resizeTimeout_frame:
  "timers (resizeTimeout st) = timers st"
  "clock (resizeTimeout st) = clock st"
  "nextHandle (resizeTimeout st) = nextHandle st"
  "clientWidth (resizeTimeout st) = clientWidth st"
  "clientHeight (resizeTimeout st) = clientHeight st"
  "lastResizeTimeout (resizeTimeout st) = None"
  by (simp_all add: resizeTimeout_def force_defs Let_def)

lemma resizeTimeout_dom:
  "nodeGroups (resizeTimeout st) = nodeGroups st"
  "defs (resizeTimeout st) = defs st"
  "lineElements (resizeTimeout st) = lineElements st"
  "body (resizeTimeout st) = body st"
  "heap (resizeTimeout st) = heap st"
  "nodes (resizeTimeout st) = nodes st"
  "links (resizeTimeout st) = links st"
  by (simp_all add: resizeTimeout_def force_defs Let_def)

text \<open>
  C5, as the code has it. The callback of the resize timer recomputes the configuration
  from the size of the viewport, registers the collide, charge, center and boundary
  forces again with the new values, sets \<open>alpha\<close> to 1 and restarts the simulation. It
  leaves the DOM alone: the circles and patterns keep the sizes they got when their node
  entered, and the link force keeps its distances.
\<close>

theorem resizeTimeout_effect:
  "config (resizeTimeout st) =
     \<lparr>linkDistanceUnit = 300 * (min (clientWidth st) (clientHeight st) / 1000),
      chargeStrength = - 60 * (min (clientWidth st) (clientHeight st) / 1000),
      circleRadiusUnit = 80 * (min (clientWidth st) (clientHeight st) / 1000)\<rparr> \<and>
   collide (simulation (resizeTimeout st)) =
     Some (map (\<lambda>a. relSize (heap st a) * circleRadiusUnit (config (resizeTimeout st)) + 10)
             (nodes st)) \<and>
   charge (simulation (resizeTimeout st)) = Some (chargeStrength (config (resizeTimeout st))) \<and>
   center (simulation (resizeTimeout st)) = Some (clientWidth st / 2, clientHeight st / 2, 0.1) \<and>
   boundary (simulation (resizeTimeout st)) =
     Some \<lparr>width = clientWidth st, height = clientHeight st, strength = 0.3\<rparr> \<and>
   alpha (simulation (resizeTimeout st)) = 1 \<and>
   running (simulation (resizeTimeout st)) \<and>
   link (simulation (resizeTimeout st)) = link (simulation st) \<and>
   nodeGroups (resizeTimeout st) = nodeGroups st \<and>
   defs (resizeTimeout st) = defs st \<and>
   lineElements (resizeTimeout st) = lineElements st"
  by (simp add: resizeTimeout_def force_defs collideRadius_def Let_def)

theorem resizeTimeout_effect_witness:
  "alpha (simulation resizedExample) = 1 \<and>
   charge (simulation resizedExample) = Some (- 30) \<and>
   collide (simulation resizedExample) = Some [50, 36] \<and>
   boundary (simulation resizedExample) = Some \<lparr>width = 500, height = 500, strength = 0.3\<rparr>"
  using resizeTimeout_effect [of "linkedExample\<lparr>clientWidth := 500, clientHeight := 500\<rparr>"]
  by (simp add: resizedExample_def linkedExample_heap linkedExample_nodes
      nodeA_def nodeB_def)

text \<open>
  C5 as the claim states it fails: after the viewport of the linked example shrinks to 500
  by 500 the disc radius of the parent is 40, and its circles still have the radius 80 and
  its pattern the width 160 and the position - 80. The link asks for the distance 90, and
  the link force still holds 180.
\<close>

theorem resize_dom_counterexample:
  "circleRadiusUnit (config resizedExample) = 40 \<and>
   relSize (heap resizedExample 0) * circleRadiusUnit (config resizedExample) = 40 \<and>
   map r_attr (circles (hd (nodeGroups resizedExample))) = [80, 80] \<and>
   width_attr (hd (defs resizedExample)) = 160 \<and>
   x_attr (hd (defs resizedExample)) = - 80 \<and>
   relDistance (heap resizedExample (Suc 0)) * linkDistanceUnit (config resizedExample) = 90 \<and>
   link (simulation resizedExample) = Some (0.07, [180])"
proof -
  have "circleRadiusUnit (config resizedExample) = 40"
    "linkDistanceUnit (config resizedExample) = 150"
    by (simp_all add: resizedExample_def resizeTimeout_def force_defs Let_def)
  moreover have "heap resizedExample 0 = nodeA" "heap resizedExample (Suc 0) = nodeB"
    by (simp_all add: resizedExample_def resizeTimeout_dom linkedExample_heap)
  moreover have "nodeGroups resizedExample = nodeGroups linkedExample"
    "defs resizedExample = defs linkedExample"
    by (simp_all add: resizedExample_def resizeTimeout_dom)
  moreover have "link (simulation resizedExample) = link (simulation linkedExample)"
    by (simp add: resizedExample_def resizeTimeout_def force_defs Let_def)
  ultimately show ?thesis
    using linkedExample_dom
    by (auto simp: nodeA_def nodeB_def neq_Nil_conv)
qed

subsection \<open>The debounce of resize signals\<close>

lemma resizeEntry_pending:
  assumes "idle st \<or> pending d st"
  shows "pending (clock st + 500) (resizeEntry st)"
    and "clock (resizeEntry st) = clock st"
    and "clientWidth (resizeEntry st) = clientWidth st"
    and "clientHeight (resizeEntry st) = clientHeight st"
  using assms
  by (auto simp: idle_def pending_def resizeEntry_def setTimeout_def clearTimeout_def Let_def
      split: option.splits)

lemma resizeObserverCallback_pending:
  assumes "idle st \<or> pending d st" and "es \<noteq> []"
  shows "pending (clock st + 500) (resizeObserverCallback es st) \<and>
     clock (resizeObserverCallback es st) = clock st \<and>
     clientWidth (resizeObserverCallback es st) = clientWidth st \<and>
     clientHeight (resizeObserverCallback es st) = clientHeight st"
  using assms
proof (induction es arbitrary: st d)
  case Nil
  then show ?case by simp
next
  case (Cons e es)
  have p: "pending (clock st + 500) (resizeEntry st)"
    using Cons.prems(1) by (rule resizeEntry_pending)
  show ?case
  proof (cases "es = []")
    case True
    with p Cons.prems(1) show ?thesis
      by (simp add: resizeObserverCallback_def resizeEntry_pending)
  next
    case False
    from p have "idle (resizeEntry st) \<or> pending (clock st + 500) (resizeEntry st)" by simp
    from Cons.IH [OF this False] Cons.prems(1) show ?thesis
      by (simp add: resizeObserverCallback_def resizeEntry_pending)
  qed
qed

lemma runTimers_idle:
  "idle st \<Longrightarrow> runTimers t st = ([], st\<lparr>clock := max (clock st) t\<rparr>)"
  by (subst runTimers.simps) (simp add: idle_def)

lemma runTimers_early:
  "pending d st \<Longrightarrow> t < d \<Longrightarrow> runTimers t st = ([], st\<lparr>clock := max (clock st) t\<rparr>)"
  by (subst runTimers.simps) (simp add: pending_def)

lemma runTimers_due:
  assumes "pending d st" and "d \<le> t" and "clock st \<le> d"
  shows "runTimers t st =
    ([d], (resizeTimeout (st\<lparr>clock := d, timers := []\<rparr>))\<lparr>clock := t\<rparr>)"
proof -
  let ?st2 = "resizeTimeout (st\<lparr>clock := d, timers := []\<rparr>)"
  have i: "idle ?st2"
    by (simp add: idle_def resizeTimeout_frame)
  from assms show ?thesis
    by (subst runTimers.simps)
       (simp add: pending_def runTimers_idle [OF i] resizeTimeout_frame max_def)
qed


lemma resizeSignal_pending:
  assumes "idle st \<or> (pending d st \<and> time sig < d)"
    and "entries sig \<noteq> []" and "clock st \<le> time sig"
  shows "fst (resizeSignal sig st) = [] \<and>
     pending (time sig + 500) (snd (resizeSignal sig st)) \<and>
     clock (snd (resizeSignal sig st)) = time sig \<and>
     clientWidth (snd (resizeSignal sig st)) = newWidth sig \<and>
     clientHeight (snd (resizeSignal sig st)) = newHeight sig"
proof -
  let ?st1 = "st\<lparr>clock := max (clock st) (time sig)\<rparr>"
  let ?st2 = "?st1\<lparr>clientWidth := newWidth sig, clientHeight := newHeight sig\<rparr>"
  from assms(1) have r: "runTimers (time sig) st = ([], ?st1)"
    by (auto simp: runTimers_idle runTimers_early)
  from assms(1) have "idle ?st2 \<or> pending d ?st2"
    by (auto simp: idle_def pending_def)
  from resizeObserverCallback_pending [OF this assms(2)] assms(3) r
  show ?thesis
    by (simp add: resizeSignal_def max_def)
qed

lemma resizeSignals_pending:
  assumes "sigs \<noteq> []" and "burst (map time sigs)"
    and "list_all (\<lambda>sig. entries sig \<noteq> []) sigs"
    and "idle st \<or> (pending d st \<and> time (hd sigs) < d)"
    and "clock st \<le> time (hd sigs)"
  shows "fst (resizeSignals sigs st) = [] \<and>
     pending (time (last sigs) + 500) (snd (resizeSignals sigs st)) \<and>
     clock (snd (resizeSignals sigs st)) = time (last sigs) \<and>
     clientWidth (snd (resizeSignals sigs st)) = newWidth (last sigs) \<and>
     clientHeight (snd (resizeSignals sigs st)) = newHeight (last sigs)"
  using assms
proof (induction sigs arbitrary: st d)
  case Nil
  then show ?case by simp
next
  case (Cons sig sigs)
  let ?st1 = "snd (resizeSignal sig st)"
  have one: "fst (resizeSignal sig st) = [] \<and>
     pending (time sig + 500) ?st1 \<and> clock ?st1 = time sig \<and>
     clientWidth ?st1 = newWidth sig \<and> clientHeight ?st1 = newHeight sig"
    using Cons.prems by (intro resizeSignal_pending [where d = d]) simp_all
  show ?case
  proof (cases sigs)
    case Nil
    with one show ?thesis
      by (simp add: split_beta)
  next
    case (Cons sig' rest)
    with Cons.prems(2) have gap: "time sig \<le> time sig'" "time sig' < time sig + 500"
      and b: "burst (map time sigs)"
      by simp_all
    have "fst (resizeSignals sigs ?st1) = [] \<and>
       pending (time (last sigs) + 500) (snd (resizeSignals sigs ?st1)) \<and>
       clock (snd (resizeSignals sigs ?st1)) = time (last sigs) \<and>
       clientWidth (snd (resizeSignals sigs ?st1)) = newWidth (last sigs) \<and>
       clientHeight (snd (resizeSignals sigs ?st1)) = newHeight (last sigs)"
    proof (rule Cons.IH [where d = "time sig + 500"])
      show "sigs \<noteq> []" using Cons by simp
      show "burst (map time sigs)" by (rule b)
      show "list_all (\<lambda>sig. entries sig \<noteq> []) sigs" using Cons.prems(3) by simp
      show "idle ?st1 \<or> (pending (time sig + 500) ?st1 \<and> time (hd sigs) < time sig + 500)"
        using one gap Cons by simp
      show "clock ?st1 \<le> time (hd sigs)"
        using one gap Cons by simp
    qed
    with one Cons show ?thesis
      by (simp add: split_beta)
  qed
qed

text \<open>
  C8. Take a burst of at least one resize signal, each less than 500 ms after the one
  before, that starts with no timer pending. During the burst the callback of the timer
  never runs, and after it exactly one timer is pending; when the time has passed, the
  callback has run exactly once, 500 ms after the last signal, with the size of the
  viewport of the last signal, and no timer is left.
\<close>

theorem resize_debounce:
  assumes "sigs \<noteq> []" and "burst (map time sigs)"
    and "list_all (\<lambda>sig. entries sig \<noteq> []) sigs"
    and "timers st = []" and "lastResizeTimeout st = None"
    and "clock st \<le> time (hd sigs)"
    and "time (last sigs) + 500 \<le> t"
  shows "fst (resizeSignals sigs st) = [] \<and>
     length (timers (snd (resizeSignals sigs st))) = 1 \<and>
     fst (runTimers t (snd (resizeSignals sigs st))) = [time (last sigs) + 500] \<and>
     timers (snd (runTimers t (snd (resizeSignals sigs st)))) = [] \<and>
     config (snd (runTimers t (snd (resizeSignals sigs st)))) =
       \<lparr>linkDistanceUnit = 0.3 * min (newWidth (last sigs)) (newHeight (last sigs)),
        chargeStrength = - 0.06 * min (newWidth (last sigs)) (newHeight (last sigs)),
        circleRadiusUnit = 0.08 * min (newWidth (last sigs)) (newHeight (last sigs))\<rparr>"
proof -
  let ?st1 = "snd (resizeSignals sigs st)"
  let ?due = "time (last sigs) + 500"
  from assms(4,5) have "idle st \<or> (pending 0 st \<and> time (hd sigs) < 0)"
    by (simp add: idle_def)
  from resizeSignals_pending [OF assms(1-3) this assms(6)]
  have quiet: "fst (resizeSignals sigs st) = []"
    and p: "pending ?due ?st1"
    and c: "clock ?st1 = time (last sigs)"
    and w: "clientWidth ?st1 = newWidth (last sigs)"
    and h: "clientHeight ?st1 = newHeight (last sigs)"
    by simp_all
  from c have "clock ?st1 \<le> ?due" by simp
  from runTimers_due [OF p assms(7) this]
  have run: "runTimers t ?st1 =
      ([?due], (resizeTimeout (?st1\<lparr>clock := ?due, timers := []\<rparr>))\<lparr>clock := t\<rparr>)" .
  have cfg: "config (resizeTimeout (?st1\<lparr>clock := ?due, timers := []\<rparr>)) =
       \<lparr>linkDistanceUnit = 0.3 * min (newWidth (last sigs)) (newHeight (last sigs)),
        chargeStrength = - 0.06 * min (newWidth (last sigs)) (newHeight (last sigs)),
        circleRadiusUnit = 0.08 * min (newWidth (last sigs)) (newHeight (last sigs))\<rparr>"
    using w h by (simp add: resizeTimeout_def force_defs Let_def)
  from quiet p run cfg show ?thesis
    by (simp add: pending_def resizeTimeout_frame)
qed


theorem resize_debounce_witness:
  "fst (resizeSignals exampleBurst exampleVisualizer) = [] \<and>
   length (timers (snd (resizeSignals exampleBurst exampleVisualizer))) = 1 \<and>
   fst (runTimers 2000 (snd (resizeSignals exampleBurst exampleVisualizer))) = [1050] \<and>
   config (snd (runTimers 2000 (snd (resizeSignals exampleBurst exampleVisualizer)))) =
     \<lparr>linkDistanceUnit = 120, chargeStrength = - 24, circleRadiusUnit = 32\<rparr>"
  using resize_debounce [of exampleBurst exampleVisualizer 2000]
  by (simp add: exampleBurst_def exampleVisualizer_timers)

subsection \<open>The tick callback\<close>

lemma AssertionError_eq: "(err :: AssertionError) = AssertionError"
  by (cases err) simp

lemma attrLines_orFail:
  "attrLines (\<lambda>e. case orFail (g e) of Inl err \<Rightarrow> Inl err | Inr v \<Rightarrow> Inr (u e v)) es =
     (if \<exists>e \<in> set es. g e = None then Inl AssertionError
      else Inr (map (\<lambda>e. u e (the (g e))) es))"
  by (induction es) (auto simp: orFail_def AssertionError_eq split: option.splits sum.splits)

lemma datum_selectLinks:
  "map datum_l (selectLinks st) = take (length (lineElements st)) (links st)"
proof -
  have "map datum_l (selectLinks st) = map snd (zip (lineElements st) (links st))"
    by (simp add: selectLinks_def split_beta)
  then show ?thesis by (simp add: map_snd_zip_take min_def)
qed

lemma datum_selectNodes:
  "map datum_g (selectNodes st) = take (length (nodeGroups st)) (nodes st)"
proof -
  have "map datum_g (selectNodes st) = map snd (zip (nodeGroups st) (nodes st))"
    by (simp add: selectNodes_def split_beta)
  then show ?thesis by (simp add: map_snd_zip_take min_def)
qed

lemma ticked_eq:
  "ticked st =
     (if \<exists>e \<in> set (selectLinks st). undefinedEndpoint st (datum_l e)
      then Inl AssertionError
      else Inr (st\<lparr>lineElements := map (tickedLine st) (selectLinks st)
                        @ drop (length (links st)) (lineElements st),
                     nodeGroups := map (tickedGroup st) (selectNodes st)
                        @ drop (length (nodes st)) (nodeGroups st)\<rparr>))"
proof (cases "\<exists>e \<in> set (selectLinks st). undefinedEndpoint st (datum_l e)")
  case True
  then show ?thesis
    by (auto simp: ticked_def attrLines_orFail undefinedEndpoint_def)
next
  case False
  then have d: "\<forall>e \<in> set (selectLinks st).
      x_n (heap st (source (datum_l e))) \<noteq> None \<and> y_n (heap st (source (datum_l e))) \<noteq> None \<and>
      x_n (heap st (target (datum_l e))) \<noteq> None \<and> y_n (heap st (target (datum_l e))) \<noteq> None"
    by (auto simp: undefinedEndpoint_def)
  have m: "map ((\<lambda>e. e\<lparr>y2_attr := Some (the (y_n (heap st (target (datum_l e)))))\<rparr>) \<circ>
           ((\<lambda>e. e\<lparr>x2_attr := Some (the (x_n (heap st (target (datum_l e)))))\<rparr>) \<circ>
           ((\<lambda>e. e\<lparr>y1_attr := Some (the (y_n (heap st (source (datum_l e)))))\<rparr>) \<circ>
           (\<lambda>e. e\<lparr>x1_attr := Some (the (x_n (heap st (source (datum_l e)))))\<rparr>))))
         (selectLinks st) = map (tickedLine st) (selectLinks st)"
    using d by (intro map_cong) (auto simp: tickedLine_def)
  from False d show ?thesis
    by (simp add: ticked_def attrLines_orFail m tickedGroup_def [abs_def]
        undefinedEndpoint_def)
qed


lemma length_bindKey [simp]: "length (bindKey ke kd es ds seen) = length ds"
  by (induction ds arbitrary: seen) simp_all

lemma map_fst_bindKey [simp]: "map fst (bindKey ke kd es ds seen) = ds"
  by (induction ds arbitrary: seen) simp_all

lemma update_frame:
  "nodes (update st) = nodes st"
  "links (update st) = links st"
  "config (update st) = config st"
  "body (update st) = body st @ [\<lparr>visible = False, shown_for = None\<rparr>]"
  "clientWidth (update st) = clientWidth st"
  "clientHeight (update st) = clientHeight st"
  "timers (update st) = timers st"
  "lastResizeTimeout (update st) = lastResizeTimeout st"
  "clock (update st) = clock st"
  by (simp_all add: update_def joinNodes_def joinLinks_def simulationNodes_def forceLink_def
      Let_def)

lemma update_lengths:
  "length (lineElements (update st)) = length (links st)"
  "length (nodeGroups (update st)) = length (nodes st)"
  by (simp_all add: update_def joinNodes_def joinLinks_def simulationNodes_def forceLink_def
      bindNodes_def bindLinks_def Let_def)

text \<open>A successful tick keeps the collections and the number of lines and groups.\<close>

lemma ticked_lengths:
  assumes "ticked st = Inr st'"
    and "length (lineElements st) = length (links st)"
    and "length (nodeGroups st) = length (nodes st)"
  shows "links st' = links st \<and> nodes st' = nodes st \<and>
    length (lineElements st') = length (links st') \<and>
    length (nodeGroups st') = length (nodes st')"
proof -
  have "length (selectLinks st) = length (links st)"
    using assms(2) by (simp add: selectLinks_def)
  moreover have "length (selectNodes st) = length (nodes st)"
    using assms(3) by (simp add: selectNodes_def)
  ultimately show ?thesis
    using assms by (auto simp: ticked_eq split: if_splits)
qed

text \<open>
  C9. In a state where every link has its line and every node its group, as \<open>update\<close>
  leaves them, the tick callback fails with the assertion error if and only if some link
  has a source or target whose \<open>x\<close> or \<open>y\<close> is undefined. Otherwise it returns, every
  line has the position of its link's source and target as its end points, and every
  group has the translation to the position of its node as its transform. The failure
  is the result \<open>Inl AssertionError\<close>: an exception that the callback does not catch.
\<close>

theorem ticked_fails_iff:
  assumes "length (lineElements st) = length (links st)"
    and "length (nodeGroups st) = length (nodes st)"
  shows "(ticked st = Inl AssertionError) = (\<exists>l \<in> set (links st). undefinedEndpoint st l) \<and>
    ((\<forall>l \<in> set (links st). \<not> undefinedEndpoint st l) \<longrightarrow>
       (\<exists>st'. ticked st = Inr st' \<and>
          length (lineElements st') = length (links st) \<and>
          (\<forall>i < length (links st).
             x1_attr (lineElements st' ! i) = x_n (heap st (source (links st ! i))) \<and>
             y1_attr (lineElements st' ! i) = y_n (heap st (source (links st ! i))) \<and>
             x2_attr (lineElements st' ! i) = x_n (heap st (target (links st ! i))) \<and>
             y2_attr (lineElements st' ! i) = y_n (heap st (target (links st ! i)))) \<and>
          length (nodeGroups st') = length (nodes st) \<and>
          (\<forall>i < length (nodes st).
             transform_attr (nodeGroups st' ! i) =
               Some (x_n (heap st (nodes st ! i)), y_n (heap st (nodes st ! i))))))"
proof -
  have dl: "map datum_l (selectLinks st) = links st"
    using assms(1) by (simp add: datum_selectLinks)
  have dg: "map datum_g (selectNodes st) = nodes st"
    using assms(2) by (simp add: datum_selectNodes)
  have ll: "length (selectLinks st) = length (links st)"
    using dl by (metis length_map)
  have lg: "length (selectNodes st) = length (nodes st)"
    using dg by (metis length_map)
  have bad: "(\<exists>e \<in> set (selectLinks st). undefinedEndpoint st (datum_l e)) =
      (\<exists>l \<in> set (links st). undefinedEndpoint st l)"
  proof -
    have "set (links st) = datum_l ` set (selectLinks st)"
      using dl by (metis set_map)
    then show ?thesis by auto
  qed
  have iff: "(ticked st = Inl AssertionError) = (\<exists>l \<in> set (links st). undefinedEndpoint st l)"
    unfolding ticked_eq bad by simp
  have ok: "\<exists>st'. ticked st = Inr st' \<and>
          length (lineElements st') = length (links st) \<and>
          (\<forall>i < length (links st).
             x1_attr (lineElements st' ! i) = x_n (heap st (source (links st ! i))) \<and>
             y1_attr (lineElements st' ! i) = y_n (heap st (source (links st ! i))) \<and>
             x2_attr (lineElements st' ! i) = x_n (heap st (target (links st ! i))) \<and>
             y2_attr (lineElements st' ! i) = y_n (heap st (target (links st ! i)))) \<and>
          length (nodeGroups st') = length (nodes st) \<and>
          (\<forall>i < length (nodes st).
             transform_attr (nodeGroups st' ! i) =
               Some (x_n (heap st (nodes st ! i)), y_n (heap st (nodes st ! i))))"
    if good: "\<forall>l \<in> set (links st). \<not> undefinedEndpoint st l"
  proof -
    let ?st' = "st\<lparr>lineElements := map (tickedLine st) (selectLinks st),
                   nodeGroups := map (tickedGroup st) (selectNodes st)\<rparr>"
    from good have t: "ticked st = Inr ?st'"
      unfolding ticked_eq bad using assms by simp
    have li: "datum_l (selectLinks st ! i) = links st ! i" if "i < length (links st)" for i
      using that dl ll by (metis nth_map)
    have gi: "datum_g (selectNodes st ! i) = nodes st ! i" if "i < length (nodes st)" for i
      using that dg lg by (metis nth_map)
    show ?thesis
      using t ll lg li gi
      by (intro exI [of _ ?st']) (simp add: tickedLine_def tickedGroup_def)
  qed
  from iff ok show ?thesis by blast
qed


lemma addLink_lengths:
  "length (lineElements (addLink l st)) = length (links (addLink l st))"
  "length (nodeGroups (addLink l st)) = length (nodes (addLink l st))"
  by (simp_all add: addLink_def update_lengths update_frame)

lemma danglingExample_links: "links danglingExample = [\<lparr>source = 0, target = 2\<rparr>]"
  by (simp add: danglingExample_def addLink_def update_frame exampleVisualizer_def addNode_def
      constructor_def force_defs Let_def)

lemma danglingExample_heap: "x_n (heap danglingExample 2) = None"
  by (simp add: danglingExample_def exampleVisualizer_def visualizer_defs)

theorem ticked_fails_iff_witness:
  "length (lineElements danglingExample) = length (links danglingExample) \<and>
   length (nodeGroups danglingExample) = length (nodes danglingExample) \<and>
   undefinedEndpoint danglingExample \<lparr>source = 0, target = 2\<rparr> \<and>
   ticked danglingExample = Inl AssertionError \<and>
   ticked linkedExample \<noteq> Inl AssertionError"
proof -
  have d: "length (lineElements danglingExample) = length (links danglingExample)"
    "length (nodeGroups danglingExample) = length (nodes danglingExample)"
    unfolding danglingExample_def by (rule addLink_lengths)+
  have l: "length (lineElements linkedExample) = length (links linkedExample)"
    "length (nodeGroups linkedExample) = length (nodes linkedExample)"
    unfolding linkedExample_def by (rule addLink_lengths)+
  have u: "undefinedEndpoint danglingExample \<lparr>source = 0, target = 2\<rparr>"
    by (simp add: undefinedEndpoint_def danglingExample_heap)
  have "ticked danglingExample = Inl AssertionError"
    using ticked_fails_iff [OF d] u by (simp add: danglingExample_links)
  moreover have "ticked linkedExample \<noteq> Inl AssertionError"
    using ticked_fails_iff [OF l]
    by (simp add: linkedExample_links linkedExample_heap undefinedEndpoint_def
        nodeA_def nodeB_def)
  ultimately show ?thesis
    using d u by simp
qed

subsection \<open>The data join\<close>





















lemma exampleVisualizer_body:
  "body exampleVisualizer = [\<lparr>visible = False, shown_for = None\<rparr>, \<lparr>visible = False, shown_for = None\<rparr>]"
  by (simp add: exampleVisualizer_def addNode_def update_frame constructor_def force_defs Let_def)



subsection \<open>Tooltips\<close>







lemma visibleTip_setData [simp]: "visibleTip (setData j d st) k = visibleTip st k"
  by (cases "k = j") (auto simp: visibleTip_def setData_def)

lemma visibleTip_showTip [simp]:
  "visibleTip (showTip j st) k = (visibleTip st k \<or> (k = j \<and> j < length (body st)))"
  by (cases "k = j") (auto simp: visibleTip_def showTip_def)

lemma visibleTip_hideTip [simp]:
  "visibleTip (hideTip j st) k = (visibleTip st k \<and> k \<noteq> j)"
  by (cases "k = j") (auto simp: visibleTip_def hideTip_def)

lemma visibleTip_callHideTask [simp]:
  "visibleTip (callHideTask task st) k = (visibleTip st k \<and> task \<noteq> Some k)"
  by (cases task) (auto simp: callHideTask_def)

lemma visibleTip_timers [simp]:
  "visibleTip (clearHideTimeout h st) k = visibleTip st k"
  "visibleTip (snd (setHideTimeout task st)) k = visibleTip st k"
  "visibleTip (st\<lparr>hideTask := t\<rparr>) k = visibleTip st k"
  "visibleTip (st\<lparr>showTimeout := s\<rparr>) k = visibleTip st k"
  "visibleTip (st\<lparr>hideTimers := hs\<rparr>) k = visibleTip st k"
  by (simp_all add: visibleTip_def clearHideTimeout_def setHideTimeout_def split: option.splits)

lemma tooltip_frame [simp]:
  "hideTask (setData j d st) = hideTask st" "nodeGroups (setData j d st) = nodeGroups st"
  "hideTask (showTip j st) = hideTask st" "nodeGroups (showTip j st) = nodeGroups st"
  "hideTask (hideTip j st) = hideTask st" "nodeGroups (hideTip j st) = nodeGroups st"
  "hideTask (callHideTask task st) = hideTask st"
  "nodeGroups (callHideTask task st) = nodeGroups st"
  "hideTask (clearHideTimeout h st) = hideTask st"
  "nodeGroups (clearHideTimeout h st) = nodeGroups st"
  "hideTask (snd (setHideTimeout task st)) = hideTask st"
  "nodeGroups (snd (setHideTimeout task st)) = nodeGroups st"
  "length (body (setData j d st)) = length (body st)"
  "length (body (showTip j st)) = length (body st)"
  "length (body (hideTip j st)) = length (body st)"
  "length (body (callHideTask task st)) = length (body st)"
  "length (body (clearHideTimeout h st)) = length (body st)"
  "length (body (snd (setHideTimeout task st))) = length (body st)"
  by (simp_all add: setData_def showTip_def hideTip_def callHideTask_def clearHideTimeout_def
      setHideTimeout_def split: option.splits)












lemma exampleVisualizer_groups:
  "map tooltip_g (nodeGroups exampleVisualizer) = [Some 0, Some 1]"
  "map datum_g (nodeGroups exampleVisualizer) = [0, Suc 0]"
  "hideTask exampleVisualizer = None"
  "showTimeout exampleVisualizer = [None, None]"
  "hideTimers exampleVisualizer = []"
  by (simp_all add: exampleVisualizer_def visualizer_defs)

text \<open>
  In the example, the pointer that enters the parent, leaves it and enters the child
  leaves only the child's tooltip visible. Handlers called without the \<^verbatim>\<open>mouseout\<close> in
  between, which a pointer does not do, would leave two tooltips visible.
\<close>

lemma example_hover:
  "map visible (body (fold pointerEvent [MouseOver 0, MouseOut 0, MouseOver 1] exampleVisualizer))
     = [False, True]"
  "map visible (body (fold pointerEvent [MouseOver 0, MouseOver 1] exampleVisualizer))
     = [True, True]"
  using exampleVisualizer_groups exampleVisualizer_body
  by (auto simp: mouseover_def mouseout_def tipMouseover_def tipMouseout_def
  hideTimeout_def callHideTask_def setData_def showTip_def hideTip_def setHideTimeout_def
  clearHideTimeout_def Let_def neq_Nil_conv)





end
